theory Spec2Isabelle
  imports Main "HOL-Library.Sublist"
begin

section \<open>Python values and exceptions\<close>

text \<open>
  The values \<open>json.loads\<close> returns: \<open>None\<close>, a bool, an int, a float, a text, a list,
  or a dict with text keys. A dict is the list of its items in insertion order (a Python
  dict has each key once). A float is named by the text \<open>repr\<close> gives it. A text is the
  list of its characters.
\<close>

datatype json =
    JNull
  | JBool bool
  | JInt int
  | JFloat string
  | JStr string
  | JList "json list"
  | JDict "(string \<times> json) list"

text \<open>
  The notebooks are Python. An exception that leaves a function is a value \<open>Inl e\<close> of
  the result type \<open>error + 'a\<close>; a normal return is \<open>Inr v\<close>. \<open>KeyError\<close> carries the
  key that was looked up and \<open>AttributeError\<close> the attribute that was missing.
\<close>

datatype error =
    IndexError
  | KeyError json
  | AttributeError string
  | TypeError
  | JSONDecodeError
  | ModelInvocationError
  | ToolDispatchError
  | StepLimitExceeded
  | ConfigurationError

text \<open>Sequencing of calls that may raise: the first exception ends the computation.\<close>

definition bind_err :: "error + 'a \<Rightarrow> ('a \<Rightarrow> error + 'b) \<Rightarrow> error + 'b" where
  "bind_err r f = (case r of Inl e \<Rightarrow> Inl e | Inr v \<Rightarrow> f v)"

text \<open>A loop body run over a list, collecting one result per element, stopping at the
  first exception (a \<open>for\<close> loop that appends, or a list comprehension).\<close>

fun map_err :: "('a \<Rightarrow> error + 'b) \<Rightarrow> 'a list \<Rightarrow> error + 'b list" where
  "map_err f [] = Inr []"
| "map_err f (x # xs) =
     (case f x of
        Inl e \<Rightarrow> Inl e
      | Inr y \<Rightarrow> (case map_err f xs of Inl e \<Rightarrow> Inl e | Inr ys \<Rightarrow> Inr (y # ys)))"

text \<open>\<open>sep.join(xs)\<close>.\<close>

fun join :: "string \<Rightarrow> string list \<Rightarrow> string" where
  "join sep [] = []"
| "join sep [x] = x"
| "join sep (x # y # ys) = x @ sep @ join sep (y # ys)"

text \<open>The newline character and the single quote, as texts.\<close>

definition nl :: string where
  "nl = [CHR 0x0A]"

definition sq :: string where
  "sq = [CHR 0x27]"

section \<open>The LangGraph agent graph (Langgraph notebook 1)\<close>

subsection \<open>Messages and the conversation state\<close>

text \<open>
  The message classes (\<open>HumanMessage\<close>, \<open>AIMessage\<close>, \<open>ToolMessage\<close>) belong to the
  LangChain library. A message is modelled by the fields the notebook and the specification
  name: a role, the text content and the \<open>tool_calls\<close> attribute. Only an assistant
  message has that attribute; reading it from another message raises \<open>AttributeError\<close>,
  so the field is optional and \<open>None\<close> stands for "no such attribute".
\<close>

datatype role = user | assistant | tool

record ToolCall =
  call_id :: string
  name :: string
  args :: string

record Message =
  role :: role
  content :: string
  tool_calls :: "ToolCall list option"

definition HumanMessage :: "string \<Rightarrow> Message" where
  "HumanMessage c = \<lparr>role = user, content = c, tool_calls = None\<rparr>"

definition AIMessage :: "string \<Rightarrow> ToolCall list \<Rightarrow> Message" where
  "AIMessage c tcs = \<lparr>role = assistant, content = c, tool_calls = Some tcs\<rparr>"

definition ToolMessage :: "string \<Rightarrow> Message" where
  "ToolMessage c = \<lparr>role = tool, content = c, tool_calls = None\<rparr>"

record MessagesState =
  messages :: "Message list"

text \<open>The value a router returns: the id of the next node, or LangGraph's sentinel
  \<open>END\<close>, which is no node's id.\<close>

datatype target = Node string | END

subsection \<open>The router\<close>

text \<open>
  \<^verbatim>\<open>
  def should_continue(state: MessagesState) -> Literal["tools", END]:
      messages = state['messages']
      last_message = messages[-1]
      if last_message.tool_calls:
          return "tools"
      return END
  \<close>
  \<open>messages[-1]\<close> raises \<open>IndexError\<close> on the empty list, the attribute access raises
  \<open>AttributeError\<close> on a message without \<open>tool_calls\<close>, and a list is true exactly
  when it is not empty.
\<close>

definition should_continue :: "MessagesState \<Rightarrow> error + target" where
  "should_continue state =
     (let msgs = messages state in
      if msgs = [] then Inl IndexError
      else
        let last_message = last msgs in
        case tool_calls last_message of
          None \<Rightarrow> Inl (AttributeError ''tool_calls'')
        | Some tcs \<Rightarrow> if tcs \<noteq> [] then Inr (Node ''tools'') else Inr END)"

subsection \<open>The agent node\<close>

text \<open>
  \<^verbatim>\<open>
  def call_model(state: MessagesState):
      messages = state['messages']
      response = model.invoke(messages)
      # We return a list, because this will get added to the existing list
      return {"messages": [response]}
  \<close>
  The chat model is external: it is a parameter that maps the message list to the content
  and the tool calls of the \<open>AIMessage\<close> it answers with, or fails.
\<close>

type_synonym chat_model = "Message list \<Rightarrow> error + (string \<times> ToolCall list)"

definition call_model :: "chat_model \<Rightarrow> MessagesState \<Rightarrow> error + Message list" where
  "call_model model state =
     (let msgs = messages state in
      case model msgs of
        Inl e \<Rightarrow> Inl e
      | Inr (c, tcs) \<Rightarrow> (let response = AIMessage c tcs in Inr [response]))"

subsection \<open>The tool node\<close>

text \<open>
  Modelled from the spec: \<open>ToolNode\<close> is a class of the LangGraph library; the notebook
  only constructs it (\<open>tool_node = ToolNode(tools)\<close>). Section 4.3 of the specification:
  for each ToolCall of the last message the named capability is looked up in the registry
  and invoked with the call's arguments; an unknown name or a failure of the tool gives a
  ToolResult whose content is an error description; the results are in the order of the
  calls; the step fails as a whole only when the last message has no ToolCalls.
  A capability is \<open>execute(arguments) -> content | error\<close>.
\<close>

datatype tool_failure = MalformedArguments | ToolExecutionFailure

type_synonym capability = "string \<Rightarrow> tool_failure + string"

type_synonym registry = "string \<rightharpoonup> capability"

text \<open>Modelled from the spec: the ToolResult of one ToolCall (section 4.3), a message of
  role \<open>tool\<close> whose content is the tool's output or an error description.\<close>

definition tool_result :: "registry \<Rightarrow> ToolCall \<Rightarrow> Message" where
  "tool_result reg tc =
     ToolMessage
       (case reg (name tc) of
          None \<Rightarrow> ''Error: UnknownTool''
        | Some execute \<Rightarrow>
            (case execute (args tc) of
               Inl MalformedArguments \<Rightarrow> ''Error: MalformedArguments''
             | Inl ToolExecutionFailure \<Rightarrow> ''Error: ToolExecutionFailure''
             | Inr out \<Rightarrow> out))"

text \<open>Modelled from the spec: the executor of the Tool Node (section 4.3), one ToolResult
  per ToolCall of the last message, in the order of the calls.\<close>

definition tool_node :: "registry \<Rightarrow> MessagesState \<Rightarrow> error + Message list" where
  "tool_node reg state =
     (let msgs = messages state in
      if msgs = [] then Inl ToolDispatchError
      else
        case tool_calls (last msgs) of
          None \<Rightarrow> Inl ToolDispatchError
        | Some tcs \<Rightarrow> if tcs = [] then Inl ToolDispatchError else Inr (map (tool_result reg) tcs))"

subsection \<open>The graph\<close>

text \<open>
  \<^verbatim>\<open>
  workflow = StateGraph(MessagesState)
  workflow.add_node("agent", call_model)
  workflow.add_node("tools", tool_node)
  workflow.set_entry_point("agent")
  workflow.add_conditional_edges("agent", should_continue)
  workflow.add_edge("tools", 'agent')
  \<close>
  A graph holds its nodes (id and executor), the entry point, the static edges and the
  conditional edges (source node and router), each in the order of registration.
\<close>

record StateGraph =
  nodes :: "(string \<times> (MessagesState \<Rightarrow> error + Message list)) list"
  entry_point :: "string option"
  edges :: "(string \<times> string) list"
  conditional_edges :: "(string \<times> (MessagesState \<Rightarrow> error + target)) list"

definition new_StateGraph :: StateGraph where
  "new_StateGraph = \<lparr>nodes = [], entry_point = None, edges = [], conditional_edges = []\<rparr>"

definition add_node ::
  "string \<Rightarrow> (MessagesState \<Rightarrow> error + Message list) \<Rightarrow> StateGraph \<Rightarrow> StateGraph" where
  "add_node n exec g = g\<lparr>nodes := nodes g @ [(n, exec)]\<rparr>"

definition set_entry_point :: "string \<Rightarrow> StateGraph \<Rightarrow> StateGraph" where
  "set_entry_point n g = g\<lparr>entry_point := Some n\<rparr>"

definition add_conditional_edges ::
  "string \<Rightarrow> (MessagesState \<Rightarrow> error + target) \<Rightarrow> StateGraph \<Rightarrow> StateGraph" where
  "add_conditional_edges n router g = g\<lparr>conditional_edges := conditional_edges g @ [(n, router)]\<rparr>"

definition add_edge :: "string \<Rightarrow> string \<Rightarrow> StateGraph \<Rightarrow> StateGraph" where
  "add_edge a b g = g\<lparr>edges := edges g @ [(a, b)]\<rparr>"

definition workflow :: "chat_model \<Rightarrow> registry \<Rightarrow> StateGraph" where
  "workflow model reg =
     add_edge ''tools'' ''agent''
       (add_conditional_edges ''agent'' should_continue
          (set_entry_point ''agent''
             (add_node ''tools'' (tool_node reg)
                (add_node ''agent'' (call_model model) new_StateGraph))))"

subsection \<open>The checkpoint store\<close>

text \<open>
  Modelled from the spec: \<open>MemorySaver\<close> is a class of the LangGraph library; the notebook
  only constructs it and passes it to \<open>workflow.compile\<close>. Section 4.5 of the
  specification: \<open>put(thread_id, state)\<close> stores or overwrites the snapshot of that thread;
  \<open>get(thread_id)\<close> returns the latest snapshot or a NotFound signal. The store is a
  mapping from thread identifier to the latest conversation state.
\<close>

datatype 's lookup = NotFound | Found 's

type_synonym ('t, 's) store = "'t \<rightharpoonup> 's"

text \<open>Modelled from the spec: the store of a fresh \<open>MemorySaver()\<close> holds no snapshot.\<close>

definition MemorySaver :: "('t, 's) store" where
  "MemorySaver = Map.empty"

text \<open>Modelled from the spec: \<open>put(thread_id, state)\<close> of section 4.5.\<close>

definition put :: "'t \<Rightarrow> 's \<Rightarrow> ('t, 's) store \<Rightarrow> ('t, 's) store" where
  "put t s st = st(t \<mapsto> s)"

text \<open>Modelled from the spec: \<open>get(thread_id)\<close> of section 4.5.\<close>

definition get :: "'t \<Rightarrow> ('t, 's) store \<Rightarrow> 's lookup" where
  "get t st = (case st t of None \<Rightarrow> NotFound | Some s \<Rightarrow> Found s)"

subsection \<open>The executor\<close>

text \<open>
  Modelled from the spec: the loop behind \<open>app.invoke\<close> is LangGraph's. Section 4.6 of
  the specification: a step runs the current node's executor, appends its output messages,
  takes the node's static edge if there is one and otherwise applies the router of its
  conditional edge to the updated state, then checkpoints the updated state. An error
  aborts the run and leaves state and checkpoint as they were before the step. The loop
  ends at \<open>END\<close> or when the step ceiling is exceeded.
\<close>

text \<open>Modelled from the spec: one step of the executor (section 4.6), which LangGraph
  implements; the result is the updated state and the next node, or the error.\<close>

definition step :: "StateGraph \<Rightarrow> string \<Rightarrow> MessagesState \<Rightarrow> error + (MessagesState \<times> target)" where
  "step g n s =
     (case map_of (nodes g) n of
        None \<Rightarrow> Inl ConfigurationError
      | Some exec \<Rightarrow>
          (case exec s of
             Inl e \<Rightarrow> Inl e
           | Inr out \<Rightarrow>
               (let s' = s\<lparr>messages := messages s @ out\<rparr> in
                case map_of (edges g) n of
                  Some m \<Rightarrow> Inr (s', Node m)
                | None \<Rightarrow>
                    (case map_of (conditional_edges g) n of
                       None \<Rightarrow> Inl ConfigurationError
                     | Some router \<Rightarrow>
                         (case router s' of Inl e \<Rightarrow> Inl e | Inr t \<Rightarrow> Inr (s', t))))))"

datatype outcome = Finished | Aborted error

text \<open>The record of a run: the state the run started from followed by the state after
  each completed step, the checkpoint store at the end, and how the run ended.\<close>

record 't run =
  states :: "MessagesState list"
  checkpoints :: "('t, MessagesState) store"
  outcome :: outcome

definition final_state :: "'t run \<Rightarrow> MessagesState" where
  "final_state r = last (states r)"

definition steps :: "'t run \<Rightarrow> nat" where
  "steps r = length (states r) - 1"

text \<open>Modelled from the spec: the executor loop of section 4.6, from a given node and
  state, with the number of steps it may still take.\<close>

fun run_from ::
  "StateGraph \<Rightarrow> nat \<Rightarrow> string \<Rightarrow> 't \<Rightarrow> ('t, MessagesState) store \<Rightarrow> MessagesState \<Rightarrow> 't run" where
  "run_from g 0 n t st s = \<lparr>states = [s], checkpoints = st, outcome = Aborted StepLimitExceeded\<rparr>"
| "run_from g (Suc limit) n t st s =
     (case step g n s of
        Inl e \<Rightarrow> \<lparr>states = [s], checkpoints = st, outcome = Aborted e\<rparr>
      | Inr (s', nxt) \<Rightarrow>
          (let st' = put t s' st;
               rest = (case nxt of
                         END \<Rightarrow> \<lparr>states = [s'], checkpoints = st', outcome = Finished\<rparr>
                       | Node m \<Rightarrow> run_from g limit m t st' s')
           in rest\<lparr>states := s # states rest\<rparr>))"

text \<open>
  \<^verbatim>\<open>
  final_state = app.invoke({"messages": [HumanMessage(content=...)]},
                           config={"configurable": {"thread_id": 42}})
  \<close>
\<close>

text \<open>Modelled from the spec: \<open>app.invoke\<close> is LangGraph's. Section 4.5: with a
  checkpoint for the thread the run continues from the stored state extended by the new
  input, at the entry node; without one it starts from the input.\<close>

definition invoke ::
  "StateGraph \<Rightarrow> nat \<Rightarrow> 't \<Rightarrow> Message list \<Rightarrow> ('t, MessagesState) store \<Rightarrow> 't run" where
  "invoke g limit t input st =
     (let s0 = (case get t st of
                  NotFound \<Rightarrow> \<lparr>messages = input\<rparr>
                | Found s \<Rightarrow> s\<lparr>messages := messages s @ input\<rparr>)
      in case entry_point g of
           None \<Rightarrow> \<lparr>states = [s0], checkpoints = st, outcome = Aborted ConfigurationError\<rparr>
         | Some n \<Rightarrow> run_from g limit n t st s0)"

section \<open>The OpenAI function calling notebook\<close>

text \<open>
  The model's reply carries \<open>tool_calls\<close>: \<open>None\<close> when no tool was called, else a list
  of calls, each with an id and a function (a name and a JSON text of arguments).
  The conversation \<open>messages\<close> is a list of dicts with string keys and string values.
\<close>

record Function =
  fn_name :: string
  fn_arguments :: string

record ChatCompletionMessageToolCall =
  tool_call_id :: string
  func :: Function

type_synonym dict = "(string \<times> string) list"

text \<open>
  \<^verbatim>\<open>
  for tool_call in tool_calls:
      function_name = tool_call.function.name
      function_args = json.loads(tool_call.function.arguments)

      if function_name in available_functions:
          function_response = available_functions[function_name](**function_args)
          print(f"Generated Opentrons Code:\n{function_response}")

          messages.append({
              "role": "function",
              "name": function_name,
              "content": function_response
          })
  \<close>
  \<open>json.loads\<close> is library code and the registered functions are arbitrary callables: both
  are parameters, and each may raise. The loop appends to \<open>messages\<close> in place, so an
  exception leaves the messages appended so far: the result is the message list together
  with the exception that ended the loop, if any. Printing is not modelled.
\<close>

fun dispatch_loop ::
  "(string \<Rightarrow> error + 'a) \<Rightarrow> (string \<rightharpoonup> ('a \<Rightarrow> error + string)) \<Rightarrow>
     ChatCompletionMessageToolCall list \<Rightarrow> dict list \<Rightarrow> dict list \<times> error option" where
  "dispatch_loop json_loads available_functions [] msgs = (msgs, None)"
| "dispatch_loop json_loads available_functions (tool_call # rest) msgs =
     (let function_name = fn_name (func tool_call) in
      case json_loads (fn_arguments (func tool_call)) of
        Inl e \<Rightarrow> (msgs, Some e)
      | Inr function_args \<Rightarrow>
          (case available_functions function_name of
             None \<Rightarrow> dispatch_loop json_loads available_functions rest msgs
           | Some f \<Rightarrow>
               (case f function_args of
                  Inl e \<Rightarrow> (msgs, Some e)
                | Inr function_response \<Rightarrow>
                    dispatch_loop json_loads available_functions rest
                      (msgs @ [[(''role'', ''function''),
                                (''name'', function_name),
                                (''content'', function_response)]]))))"

text \<open>
  \<^verbatim>\<open>
  if tool_calls:
      for tool_call in tool_calls: ...
      second_response = client.chat.completions.create(model="gpt-4o-mini", messages=messages)
      print(second_response.choices[0].message.content)
  else:
      print(response_message.content)
  \<close>
  The cell returns nothing; the model gives the messages after it and what it reached:
  an exception, the second reply of the model, or \<open>None\<close> when there was no tool call.
\<close>

definition tool_calls_cell ::
  "(string \<Rightarrow> error + 'a) \<Rightarrow> (string \<rightharpoonup> ('a \<Rightarrow> error + string)) \<Rightarrow>
     (dict list \<Rightarrow> error + string) \<Rightarrow> ChatCompletionMessageToolCall list option \<Rightarrow>
     dict list \<Rightarrow> dict list \<times> (error + string option)" where
  "tool_calls_cell json_loads available_functions create tool_calls_opt msgs =
     (case tool_calls_opt of
        None \<Rightarrow> (msgs, Inr None)
      | Some tcs \<Rightarrow>
          if tcs = [] then (msgs, Inr None)
          else
            (case dispatch_loop json_loads available_functions tcs msgs of
               (msgs', Some e) \<Rightarrow> (msgs', Inl e)
             | (msgs', None) \<Rightarrow>
                 (case create msgs' of
                    Inl e \<Rightarrow> (msgs', Inl e)
                  | Inr second_response \<Rightarrow> (msgs', Inr (Some second_response)))))"

text \<open>The message the loop appends for a call, and whether a call's name is registered.\<close>

definition function_message :: "string \<Rightarrow> string \<Rightarrow> dict" where
  "function_message function_name function_response =
     [(''role'', ''function''), (''name'', function_name), (''content'', function_response)]"

definition registered ::
  "(string \<rightharpoonup> ('a \<Rightarrow> error + string)) \<Rightarrow> ChatCompletionMessageToolCall \<Rightarrow> bool" where
  "registered available_functions tc =
     (case available_functions (fn_name (func tc)) of None \<Rightarrow> False | Some f \<Rightarrow> True)"

text \<open>The exception a call raises in the loop body, if any: that of \<open>json.loads\<close>, or
  that of the registered function on the decoded arguments.\<close>

definition call_raises ::
  "(string \<Rightarrow> error + 'a) \<Rightarrow> (string \<rightharpoonup> ('a \<Rightarrow> error + string)) \<Rightarrow>
     ChatCompletionMessageToolCall \<Rightarrow> error option" where
  "call_raises json_loads available_functions tc =
     (case json_loads (fn_arguments (func tc)) of
        Inl e \<Rightarrow> Some e
      | Inr function_args \<Rightarrow>
          (case available_functions (fn_name (func tc)) of
             None \<Rightarrow> None
           | Some f \<Rightarrow> (case f function_args of Inl e \<Rightarrow> Some e | Inr r \<Rightarrow> None)))"

text \<open>A call runs to its end when it raises nothing: its arguments decode and, if its
  name is registered, the function returns.\<close>

definition completes ::
  "(string \<Rightarrow> error + 'a) \<Rightarrow> (string \<rightharpoonup> ('a \<Rightarrow> error + string)) \<Rightarrow>
     ChatCompletionMessageToolCall \<Rightarrow> bool" where
  "completes json_loads available_functions tc =
     (call_raises json_loads available_functions tc = None)"

text \<open>The message of a registered call that runs to its end (the empty dict otherwise).\<close>

definition response_message ::
  "(string \<Rightarrow> error + 'a) \<Rightarrow> (string \<rightharpoonup> ('a \<Rightarrow> error + string)) \<Rightarrow>
     ChatCompletionMessageToolCall \<Rightarrow> dict" where
  "response_message json_loads available_functions tc =
     (case json_loads (fn_arguments (func tc)) of
        Inl e \<Rightarrow> []
      | Inr function_args \<Rightarrow>
          (case available_functions (fn_name (func tc)) of
             None \<Rightarrow> []
           | Some f \<Rightarrow>
               (case f function_args of
                  Inl e \<Rightarrow> []
                | Inr r \<Rightarrow> function_message (fn_name (func tc)) r)))"

text \<open>
  \<^verbatim>\<open>
  def generate_opentrons_code(command):
      deck_state = default_deck_state
      generated_code = f"""
  # Generated Opentrons code for: {command}
  # Using default deck state: {json.dumps(deck_state, indent=2)}

  from opentrons import protocol_api

  metadata = {{'apiLevel': '2.13'}}

  def run(protocol: protocol_api.ProtocolContext):
      # TODO: Implement the steps to execute the command
      # This would involve translating the natural language command
      # into specific Opentrons API calls, using the default deck state
      pass
  """
      return generated_code
  \<close>
  \<open>default_deck_state_dump\<close> is \<open>json.dumps(default_deck_state, indent=2)\<close>, a constant
  text, as the notebook prints it. The template starts and ends with an empty line.
\<close>

definition default_deck_state_dump :: string where
  "default_deck_state_dump =
     join nl
       [''{'',
        ''  \"pipettes\": {'',
        ''    \"left\": {'',
        ''      \"type\": \"p300_single\",'',
        ''      \"tip_racks\": ['',
        ''        \"1\"'',
        ''      ]'',
        ''    },'',
        ''    \"right\": {'',
        ''      \"type\": \"p20_multi\",'',
        ''      \"tip_racks\": ['',
        ''        \"4\",'',
        ''        \"5\"'',
        ''      ]'',
        ''    }'',
        ''  },'',
        ''  \"modules\": {'',
        ''    \"1\": \"temperature module\",'',
        ''    \"3\": \"magnetic module\"'',
        ''  },'',
        ''  \"labware\": {'',
        ''    \"1\": \"opentrons_96_tiprack_300ul\",'',
        ''    \"2\": \"corning_96_wellplate_360ul_flat\",'',
        ''    \"3\": \"nest_96_wellplate_100ul_pcr_full_skirt\",'',
        ''    \"4\": \"opentrons_96_tiprack_20ul\",'',
        ''    \"5\": \"opentrons_96_tiprack_20ul\",'',
        ''    \"6\": \"nest_12_reservoir_15ml\"'',
        ''  }'',
        ''}'']"

definition generate_opentrons_code :: "string \<Rightarrow> string" where
  "generate_opentrons_code command =
     join nl
       [[],
        ''# Generated Opentrons code for: '' @ command,
        ''# Using default deck state: '' @ default_deck_state_dump,
        [],
        ''from opentrons import protocol_api'',
        [],
        ''metadata = {'' @ sq @ ''apiLevel'' @ sq @ '': '' @ sq @ ''2.13'' @ sq @ ''}'',
        [],
        ''def run(protocol: protocol_api.ProtocolContext):'',
        ''    # TODO: Implement the steps to execute the command'',
        ''    # This would involve translating the natural language command'',
        ''    # into specific Opentrons API calls, using the default deck state'',
        ''    pass'',
        []]"

text \<open>
  The call \<open>generate_opentrons_code(**function_args)\<close> with a decoded object of text
  values: the function has the one parameter \<open>command\<close>, so any other set of keys raises
  \<open>TypeError\<close>.
\<close>

definition generate_opentrons_code_kwargs :: "dict \<Rightarrow> error + string" where
  "generate_opentrons_code_kwargs function_args =
     (case function_args of
        [(k, command)] \<Rightarrow>
          if k = ''command'' then Inr (generate_opentrons_code command) else Inl TypeError
      | _ \<Rightarrow> Inl TypeError)"

text \<open>
  \<open>available_functions = {"generate_opentrons_code": generate_opentrons_code}\<close>.
\<close>

definition available_functions_sample :: "string \<rightharpoonup> (dict \<Rightarrow> error + string)" where
  "available_functions_sample = [''generate_opentrons_code'' \<mapsto> generate_opentrons_code_kwargs]"

text \<open>
  \<open>json.loads\<close> on the three payloads of the examples: an object with a command, the empty
  object, and the text \<open>{\<close>, which is not a JSON document and raises.
\<close>

definition json_loads_sample :: "string \<Rightarrow> error + dict" where
  "json_loads_sample s =
     (if s = ''{\"command\": \"mix\"}'' then Inr [(''command'', ''mix'')]
      else if s = ''{}'' then Inr []
      else Inl JSONDecodeError)"

text \<open>A second model call that succeeds.\<close>

definition create_sample :: "dict list \<Rightarrow> error + string" where
  "create_sample msgs = Inr ''explanation''"

definition mk_tool_call :: "string \<Rightarrow> string \<Rightarrow> string \<Rightarrow> ChatCompletionMessageToolCall" where
  "mk_tool_call i n a = \<lparr>tool_call_id = i, func = \<lparr>fn_name = n, fn_arguments = a\<rparr>\<rparr>"

section \<open>The deck layout templater\<close>

subsection \<open>Python operations on decoded JSON\<close>

text \<open>
  \<open>initialize_deck\<close> reads a JSON file and decodes it; the model starts from the decoded
  value, which can be any JSON value. Each operation the function applies to it is
  written out for every kind of value, with the exception Python raises.
\<close>

text \<open>\<open>xs[i]\<close> on a list or a text, for an int \<open>i\<close>: a negative index counts from the end,
  an index out of range raises \<open>IndexError\<close>.\<close>

definition index_seq :: "'a list \<Rightarrow> int \<Rightarrow> error + 'a" where
  "index_seq xs i =
     (let n = int (length xs); j = (if i < 0 then n + i else i)
      in if 0 \<le> j \<and> j < n then Inr (xs ! nat j) else Inl IndexError)"

text \<open>A list and a dict cannot be a dict key (\<open>TypeError: unhashable type\<close>).\<close>

definition hashable :: "json \<Rightarrow> bool" where
  "hashable v = (case v of JList xs \<Rightarrow> False | JDict d \<Rightarrow> False | _ \<Rightarrow> True)"

text \<open>The values a list or a text accepts as index: an int, or a bool (\<open>True\<close> is 1).\<close>

definition as_index :: "json \<Rightarrow> int option" where
  "as_index v =
     (case v of JInt i \<Rightarrow> Some i | JBool b \<Rightarrow> Some (if b then 1 else 0) | _ \<Rightarrow> None)"

text \<open>
  \<open>v[key]\<close>. The keys of a decoded dict are texts, so a key of another hashable kind is
  never found. A list or a text is indexed by position; indexing a text gives the text of
  one character. \<open>None\<close>, a bool and a number cannot be subscripted.
\<close>

definition getitem :: "json \<Rightarrow> json \<Rightarrow> error + json" where
  "getitem v key =
     (case v of
        JDict d \<Rightarrow>
          (if \<not> hashable key then Inl TypeError
           else case key of
                  JStr k \<Rightarrow> (case map_of d k of None \<Rightarrow> Inl (KeyError key) | Some x \<Rightarrow> Inr x)
                | _ \<Rightarrow> Inl (KeyError key))
      | JList xs \<Rightarrow>
          (case as_index key of None \<Rightarrow> Inl TypeError | Some i \<Rightarrow> index_seq xs i)
      | JStr s \<Rightarrow>
          (case as_index key of
             None \<Rightarrow> Inl TypeError
           | Some i \<Rightarrow> (case index_seq s i of Inl e \<Rightarrow> Inl e | Inr c \<Rightarrow> Inr (JStr [c])))
      | _ \<Rightarrow> Inl TypeError)"

text \<open>\<open>v.items()\<close>: only a dict has the method.\<close>

definition items :: "json \<Rightarrow> error + (string \<times> json) list" where
  "items v = (case v of JDict d \<Rightarrow> Inr d | _ \<Rightarrow> Inl (AttributeError ''items''))"

text \<open>\<open>v.get(k, default)\<close>: only a dict has the method; a key that is present gives its
  value, whatever it is.\<close>

definition get_default :: "json \<Rightarrow> string \<Rightarrow> json \<Rightarrow> error + json" where
  "get_default v k dflt =
     (case v of
        JDict d \<Rightarrow> Inr (case map_of d k of None \<Rightarrow> dflt | Some x \<Rightarrow> x)
      | _ \<Rightarrow> Inl (AttributeError ''get''))"

text \<open>\<open>for x in v\<close>: the elements of a list, the characters of a text, the keys of a
  dict; the other kinds are not iterable.\<close>

definition iterate :: "json \<Rightarrow> error + json list" where
  "iterate v =
     (case v of
        JList xs \<Rightarrow> Inr xs
      | JStr s \<Rightarrow> Inr (map (\<lambda>c. JStr [c]) s)
      | JDict d \<Rightarrow> Inr (map (\<lambda>item. JStr (fst item)) d)
      | _ \<Rightarrow> Inl TypeError)"

text \<open>\<open>k in v\<close> for a text \<open>k\<close>: a key of a dict, an element of a list, a part of a
  text; the other kinds raise \<open>TypeError\<close>.\<close>

fun is_substring :: "string \<Rightarrow> string \<Rightarrow> bool" where
  "is_substring k [] = (k = [])"
| "is_substring k (c # cs) = (take (length k) (c # cs) = k \<or> is_substring k cs)"

definition contains :: "string \<Rightarrow> json \<Rightarrow> error + bool" where
  "contains k v =
     (case v of
        JDict d \<Rightarrow> Inr (case map_of d k of None \<Rightarrow> False | Some x \<Rightarrow> True)
      | JList xs \<Rightarrow> Inr (list_ex (\<lambda>x. x = JStr k) xs)
      | JStr s \<Rightarrow> Inr (is_substring k s)
      | _ \<Rightarrow> Inl TypeError)"

text \<open>
  A replacement field \<open>{v}\<close> of an f-string is \<open>str(v)\<close>: the text itself for a text.
  For the other kinds \<open>str\<close> is Python's built-in conversion, which the templater takes
  as the parameter \<open>str_other\<close>; it never raises on a decoded value.
\<close>

definition py_str :: "(json \<Rightarrow> string) \<Rightarrow> json \<Rightarrow> string" where
  "py_str str_other v = (case v of JStr s \<Rightarrow> s | _ \<Rightarrow> str_other v)"

subsection \<open>The generator\<close>

text \<open>
  \<^verbatim>\<open>
  for mount, pipette in config['pipettes'].items():
      tip_racks = [f"protocol.load_labware('{config['labware'][rack]['type']}', '{rack}')"
                   for rack in pipette['tip_racks']]
      tip_racks_str = ", ".join(tip_racks)
      code.append(f"    {mount}_pipette = protocol.load_instrument('{pipette['type']}', '{mount}', tip_racks=[{tip_racks_str}])")
  \<close>
\<close>

definition tip_rack_text :: "(json \<Rightarrow> string) \<Rightarrow> json \<Rightarrow> json \<Rightarrow> error + string" where
  "tip_rack_text str_other config rack =
     bind_err (getitem config (JStr ''labware'')) (\<lambda>lw.
     bind_err (getitem lw rack) (\<lambda>entry.
     bind_err (getitem entry (JStr ''type'')) (\<lambda>ty.
       Inr (''protocol.load_labware('' @ sq @ py_str str_other ty @ sq @ '', '' @ sq
            @ py_str str_other rack @ sq @ '')''))))"

definition pipette_line :: "(json \<Rightarrow> string) \<Rightarrow> json \<Rightarrow> string \<times> json \<Rightarrow> error + string" where
  "pipette_line str_other config item =
     (case item of (mount, pipette) \<Rightarrow>
        bind_err (getitem pipette (JStr ''tip_racks'')) (\<lambda>tr.
        bind_err (iterate tr) (\<lambda>racks.
        bind_err (map_err (tip_rack_text str_other config) racks) (\<lambda>tip_racks.
        let tip_racks_str = join '', '' tip_racks in
        bind_err (getitem pipette (JStr ''type'')) (\<lambda>ty.
          Inr (''    '' @ mount @ ''_pipette = protocol.load_instrument('' @ sq
               @ py_str str_other ty @ sq @ '', '' @ sq @ mount @ sq
               @ '', tip_racks=['' @ tip_racks_str @ ''])''))))))"

text \<open>
  \<^verbatim>\<open>
  for module_name, module_info in config.get('modules', {}).items():
      code.append(f"    {module_name} = protocol.load_module('{module_info['type']}', '{module_info['location'][0]}')")
  \<close>
\<close>

definition module_line :: "(json \<Rightarrow> string) \<Rightarrow> string \<times> json \<Rightarrow> error + string" where
  "module_line str_other item =
     (case item of (module_name, module_info) \<Rightarrow>
        bind_err (getitem module_info (JStr ''type'')) (\<lambda>ty.
        bind_err (getitem module_info (JStr ''location'')) (\<lambda>loc.
        bind_err (getitem loc (JInt 0)) (\<lambda>loc0.
          Inr (''    '' @ module_name @ '' = protocol.load_module('' @ sq
               @ py_str str_other ty @ sq @ '', '' @ sq @ py_str str_other loc0 @ sq @ '')'')))))"

text \<open>
  \<^verbatim>\<open>
  for slot, labware in config['labware'].items():
      if 'parent_module' in labware:
          code.append(f"    {slot}_labware = {labware['parent_module']}.load_labware('{labware['type']}')")
      else:
          code.append(f"    {slot}_labware = protocol.load_labware('{labware['type']}', '{slot}')")
  \<close>
\<close>

definition labware_line :: "(json \<Rightarrow> string) \<Rightarrow> string \<times> json \<Rightarrow> error + string" where
  "labware_line str_other item =
     (case item of (slot, labware) \<Rightarrow>
        bind_err (contains ''parent_module'' labware) (\<lambda>has_parent.
        if has_parent then
          bind_err (getitem labware (JStr ''parent_module'')) (\<lambda>pm.
          bind_err (getitem labware (JStr ''type'')) (\<lambda>ty.
            Inr (''    '' @ slot @ ''_labware = '' @ py_str str_other pm @ ''.load_labware('' @ sq
                 @ py_str str_other ty @ sq @ '')'')))
        else
          bind_err (getitem labware (JStr ''type'')) (\<lambda>ty.
            Inr (''    '' @ slot @ ''_labware = protocol.load_labware('' @ sq
                 @ py_str str_other ty @ sq @ '', '' @ sq @ slot @ sq @ '')''))))"

text \<open>
  \<^verbatim>\<open>
  config = json.loads(opentrons_config_string)
  code = []
  code.append("from opentrons import protocol_api")
  code.append(f"\nmetadata = {{'apiLevel': '{config['api_version']}'}}")
  code.append("\ndef run(protocol: protocol_api.ProtocolContext):")
  ... the three loops ...
  return "\n".join(code)
  \<close>
  \<open>initialize_deck_code\<close> is the list \<open>code\<close> at the return statement.
\<close>

definition initialize_deck_code :: "(json \<Rightarrow> string) \<Rightarrow> json \<Rightarrow> error + string list" where
  "initialize_deck_code str_other config =
     bind_err (getitem config (JStr ''api_version'')) (\<lambda>api.
     let code = [''from opentrons import protocol_api'',
                 nl @ ''metadata = {'' @ sq @ ''apiLevel'' @ sq @ '': '' @ sq
                   @ py_str str_other api @ sq @ ''}'',
                 nl @ ''def run(protocol: protocol_api.ProtocolContext):''] in
     bind_err (getitem config (JStr ''pipettes'')) (\<lambda>pipettes.
     bind_err (items pipettes) (\<lambda>pipette_items.
     bind_err (map_err (pipette_line str_other config) pipette_items) (\<lambda>pipette_lines.
     bind_err (get_default config ''modules'' (JDict [])) (\<lambda>modules.
     bind_err (items modules) (\<lambda>module_items.
     bind_err (map_err (module_line str_other) module_items) (\<lambda>module_lines.
     bind_err (getitem config (JStr ''labware'')) (\<lambda>labware.
     bind_err (items labware) (\<lambda>labware_items.
     bind_err (map_err (labware_line str_other) labware_items) (\<lambda>labware_lines.
       Inr (code @ pipette_lines @ module_lines @ labware_lines)))))))))))"

definition initialize_deck :: "(json \<Rightarrow> string) \<Rightarrow> json \<Rightarrow> error + string" where
  "initialize_deck str_other config =
     (case initialize_deck_code str_other config of
        Inl e \<Rightarrow> Inl e
      | Inr code \<Rightarrow> Inr (join nl code))"

subsection \<open>Assignment targets and identifiers\<close>

text \<open>
  Python's \<open>str.isidentifier\<close> on ASCII text: a letter or an underscore, followed by
  letters, digits and underscores.
\<close>

definition is_ident_start :: "char \<Rightarrow> bool" where
  "is_ident_start c =
     (let n = (of_char c :: nat) in (65 \<le> n \<and> n \<le> 90) \<or> (97 \<le> n \<and> n \<le> 122) \<or> n = 95)"

definition is_ident_char :: "char \<Rightarrow> bool" where
  "is_ident_char c = (is_ident_start c \<or> (let n = (of_char c :: nat) in 48 \<le> n \<and> n \<le> 57))"

definition isidentifier :: "string \<Rightarrow> bool" where
  "isidentifier s = (case s of [] \<Rightarrow> False | c # cs \<Rightarrow> is_ident_start c \<and> list_all is_ident_char cs)"

text \<open>The target of an assignment statement: the text of the line, without its
  indentation, up to the first \<open>" = "\<close>; \<open>None\<close> for a line that is no assignment.\<close>

fun before_assign :: "string \<Rightarrow> string option" where
  "before_assign [] = None"
| "before_assign (c # cs) =
     (if take 3 (c # cs) = '' = '' then Some []
      else map_option ((#) c) (before_assign cs))"

definition assignment_target :: "string \<Rightarrow> string option" where
  "assignment_target line =
     before_assign (dropWhile (\<lambda>c. c = CHR '' '' \<or> c = CHR 0x0A) line)"

definition assignment_targets :: "string list \<Rightarrow> string list" where
  "assignment_targets code = List.map_filter assignment_target code"

section \<open>Sample inputs\<close>

text \<open>A chat model that asks for one document search on the first turn and answers on the
  second, and a registry with that one tool.\<close>

definition model_sample :: chat_model where
  "model_sample msgs =
     (if length msgs = 1
      then Inr ([], [\<lparr>call_id = ''c1'', name = ''search_opentrons_docs'', args = ''blow out''\<rparr>])
      else Inr (''Use blow_out().'', []))"

definition registry_sample :: registry where
  "registry_sample = [''search_opentrons_docs'' \<mapsto> (\<lambda>q. Inr ''InstrumentContext.blow_out'')]"

text \<open>A chat model that answers at once, without a tool call.\<close>

definition model_direct :: chat_model where
  "model_direct msgs = Inr (''Use blow_out().'', [])"

text \<open>The lines of a text, split at the newline characters.\<close>

fun split_lines_acc :: "string \<Rightarrow> string \<Rightarrow> string list" where
  "split_lines_acc cur [] = [rev cur]"
| "split_lines_acc cur (c # cs) =
     (if c = CHR 0x0A then rev cur # split_lines_acc [] cs else split_lines_acc (c # cur) cs)"

definition split_lines :: "string \<Rightarrow> string list" where
  "split_lines s = split_lines_acc [] s"

text \<open>The configuration of the notebook, \<open>opentrons_config.json\<close>, as the notebook
  prints it.\<close>

definition opentrons_config :: json where
  "opentrons_config =
     JDict
       [(''robot_type'', JStr ''OT-2''),
        (''api_version'', JStr ''2.17''),
        (''pipettes'', JDict
           [(''left'', JDict [(''type'', JStr ''p300_single_gen2''),
                              (''tip_racks'', JList [JStr ''1''])]),
            (''right'', JDict [(''type'', JStr ''p20_multi_gen2''),
                               (''tip_racks'', JList [JStr ''2''])])]),
        (''modules'', JDict
           [(''thermocycler'', JDict [(''type'', JStr ''thermocyclerModuleV2''),
                                      (''location'', JList [JStr ''7''])])]),
        (''labware'', JDict
           [(''1'', JDict [(''type'', JStr ''opentrons_96_tiprack_300ul'')]),
            (''2'', JDict [(''type'', JStr ''opentrons_96_tiprack_20ul'')]),
            (''3'', JDict [(''type'', JStr ''corning_96_wellplate_360ul_flat'')]),
            (''5'', JDict [(''type'', JStr ''nest_12_reservoir_15ml'')]),
            (''7'', JDict [(''type'', JStr ''nest_96_wellplate_100ul_pcr_full_skirt''),
                           (''parent_module'', JStr ''thermocycler'')])])]"

text \<open>
  \<open>str\<close> on the values that are not texts, for the examples: none of them formats a
  list, a dict or an int, for which the empty text stands here.
\<close>

definition str_sample :: "json \<Rightarrow> string" where
  "str_sample v =
     (case v of
        JNull \<Rightarrow> ''None''
      | JBool b \<Rightarrow> (if b then ''True'' else ''False'')
      | JFloat r \<Rightarrow> r
      | _ \<Rightarrow> [])"

text \<open>The kinds of a value.\<close>

definition is_dict :: "json \<Rightarrow> bool" where
  "is_dict v = (case v of JDict d \<Rightarrow> True | _ \<Rightarrow> False)"

definition is_text :: "json \<Rightarrow> bool" where
  "is_text v = (case v of JStr s \<Rightarrow> True | _ \<Rightarrow> False)"

text \<open>
  A configuration has the kinds of \<open>opentrons_config.json\<close> when it is a dict and, as far
  as the keys are present: \<open>pipettes\<close> is a dict of dicts whose \<open>tip_racks\<close> is a list of
  texts, \<open>modules\<close> is a dict of dicts whose \<open>location\<close> is a list, and \<open>labware\<close> is a
  dict of dicts.
\<close>

definition pipette_kind :: "json \<Rightarrow> bool" where
  "pipette_kind v =
     (case v of
        JDict p \<Rightarrow>
          (case map_of p ''tip_racks'' of
             None \<Rightarrow> True
           | Some (JList racks) \<Rightarrow> list_all is_text racks
           | Some _ \<Rightarrow> False)
      | _ \<Rightarrow> False)"

definition module_kind :: "json \<Rightarrow> bool" where
  "module_kind v =
     (case v of
        JDict m \<Rightarrow>
          (case map_of m ''location'' of
             None \<Rightarrow> True
           | Some (JList loc) \<Rightarrow> True
           | Some _ \<Rightarrow> False)
      | _ \<Rightarrow> False)"

definition section_kind :: "(json \<Rightarrow> bool) \<Rightarrow> json option \<Rightarrow> bool" where
  "section_kind entry_kind section =
     (case section of
        None \<Rightarrow> True
      | Some (JDict entries) \<Rightarrow> list_all (\<lambda>item. entry_kind (snd item)) entries
      | Some _ \<Rightarrow> False)"

definition kinds_ok :: "json \<Rightarrow> bool" where
  "kinds_ok config =
     (case config of
        JDict d \<Rightarrow>
          section_kind pipette_kind (map_of d ''pipettes'')
          \<and> section_kind module_kind (map_of d ''modules'')
          \<and> section_kind is_dict (map_of d ''labware'')
      | _ \<Rightarrow> False)"

text \<open>No module of the configuration has the empty list as \<open>location\<close>.\<close>

definition located :: "json \<Rightarrow> bool" where
  "located v =
     (case v of
        JDict m \<Rightarrow> (case map_of m ''location'' of Some (JList []) \<Rightarrow> False | _ \<Rightarrow> True)
      | _ \<Rightarrow> True)"

definition no_empty_location :: "json \<Rightarrow> bool" where
  "no_empty_location config =
     (case config of
        JDict d \<Rightarrow>
          (case map_of d ''modules'' of
             Some (JDict ms) \<Rightarrow> list_all (\<lambda>item. located (snd item)) ms
           | _ \<Rightarrow> True)
      | _ \<Rightarrow> True)"

text \<open>Some pipette lists a tip rack whose slot is not a key of the \<open>labware\<close> dict.\<close>

definition names_absent_slot :: "(string \<times> json) list \<Rightarrow> json \<Rightarrow> bool" where
  "names_absent_slot lw pipette =
     (case pipette of
        JDict p \<Rightarrow>
          (case map_of p ''tip_racks'' of
             Some (JList racks) \<Rightarrow>
               list_ex (\<lambda>rack. case rack of
                                  JStr slot \<Rightarrow> (case map_of lw slot of None \<Rightarrow> True | Some x \<Rightarrow> False)
                                | _ \<Rightarrow> False) racks
           | _ \<Rightarrow> False)
      | _ \<Rightarrow> False)"

definition dangling_tip_rack :: "json \<Rightarrow> bool" where
  "dangling_tip_rack config =
     (case config of
        JDict d \<Rightarrow>
          (case map_of d ''pipettes'' of
             Some (JDict ps) \<Rightarrow>
               (case map_of d ''labware'' of
                  Some (JDict lw) \<Rightarrow> list_ex (\<lambda>item. names_absent_slot lw (snd item)) ps
                | _ \<Rightarrow> False)
           | _ \<Rightarrow> False)
      | _ \<Rightarrow> False)"

text \<open>
  Variants of the notebook's configuration: without \<open>modules\<close>; without \<open>labware\<close>; with a
  pipette whose tip rack is in slot 9. Then two configurations without \<open>labware\<close> and
  without pipettes: one whose only module has an empty location list, and one whose
  \<open>modules\<close> is \<open>null\<close>.
\<close>

definition without_key :: "string \<Rightarrow> json \<Rightarrow> json" where
  "without_key k v = (case v of JDict d \<Rightarrow> JDict (filter (\<lambda>item. fst item \<noteq> k) d) | _ \<Rightarrow> v)"

definition config_without_modules :: json where
  "config_without_modules = without_key ''modules'' opentrons_config"

definition config_without_labware :: json where
  "config_without_labware = without_key ''labware'' opentrons_config"

definition config_dangling_rack :: json where
  "config_dangling_rack =
     JDict
       [(''api_version'', JStr ''2.17''),
        (''pipettes'', JDict
           [(''left'', JDict [(''type'', JStr ''p300_single_gen2''),
                              (''tip_racks'', JList [JStr ''9''])])]),
        (''labware'', JDict
           [(''1'', JDict [(''type'', JStr ''opentrons_96_tiprack_300ul'')])])]"

definition config_empty_location :: json where
  "config_empty_location =
     JDict
       [(''api_version'', JStr ''2.17''),
        (''pipettes'', JDict []),
        (''modules'', JDict
           [(''thermocycler'', JDict [(''type'', JStr ''thermocyclerModuleV2''),
                                      (''location'', JList [])])])]"

definition config_null_modules :: json where
  "config_null_modules =
     JDict
       [(''api_version'', JStr ''2.17''),
        (''pipettes'', JDict []),
        (''modules'', JNull)]"

text \<open>The items of a dict (none for another kind of value).\<close>

definition dict_items :: "json \<Rightarrow> (string \<times> json) list" where
  "dict_items v = (case v of JDict d \<Rightarrow> d | _ \<Rightarrow> [])"

text \<open>The list \<open>code\<close> for the notebook's configuration: the lines the notebook prints
  as the tool's output.\<close>

definition opentrons_code :: "string list" where
  "opentrons_code =
     [''from opentrons import protocol_api'',
      nl @ ''metadata = {'apiLevel': '2.17'}'',
      nl @ ''def run(protocol: protocol_api.ProtocolContext):'',
      ''    left_pipette = protocol.load_instrument('p300_single_gen2', 'left', tip_racks=[protocol.load_labware('opentrons_96_tiprack_300ul', '1')])'',
      ''    right_pipette = protocol.load_instrument('p20_multi_gen2', 'right', tip_racks=[protocol.load_labware('opentrons_96_tiprack_20ul', '2')])'',
      ''    thermocycler = protocol.load_module('thermocyclerModuleV2', '7')'',
      ''    1_labware = protocol.load_labware('opentrons_96_tiprack_300ul', '1')'',
      ''    2_labware = protocol.load_labware('opentrons_96_tiprack_20ul', '2')'',
      ''    3_labware = protocol.load_labware('corning_96_wellplate_360ul_flat', '3')'',
      ''    5_labware = protocol.load_labware('nest_12_reservoir_15ml', '5')'',
      ''    7_labware = thermocycler.load_labware('nest_96_wellplate_100ul_pcr_full_skirt')'']"

text \<open>A state whose last message asks for two tools, only the first of which is in
  \<open>registry_sample\<close>.\<close>

definition two_calls :: "ToolCall list" where
  "two_calls =
     [\<lparr>call_id = ''c1'', name = ''search_opentrons_docs'', args = ''blow out''\<rparr>,
      \<lparr>call_id = ''c2'', name = ''InitializeDeck'', args = ''opentrons_config.json''\<rparr>]"

definition state_two_calls :: MessagesState where
  "state_two_calls = \<lparr>messages = [HumanMessage ''How do I blow out?'', AIMessage [] two_calls]\<rparr>"

section \<open>Properties of the agent graph\<close>

subsection \<open>The graph of the notebook\<close>

lemma workflow_nodes:
  "map_of (nodes (workflow model reg)) ''agent'' = Some (call_model model)"
  "map_of (nodes (workflow model reg)) ''tools'' = Some (tool_node reg)"
  "n \<noteq> ''agent'' \<Longrightarrow> n \<noteq> ''tools'' \<Longrightarrow> map_of (nodes (workflow model reg)) n = None"
  by (simp_all add: workflow_def add_edge_def add_conditional_edges_def set_entry_point_def
      add_node_def new_StateGraph_def)

lemma workflow_edges:
  "map_of (edges (workflow model reg)) n = (if n = ''tools'' then Some ''agent'' else None)"
  "map_of (conditional_edges (workflow model reg)) n =
     (if n = ''agent'' then Some should_continue else None)"
  "entry_point (workflow model reg) = Some ''agent''"
  by (simp_all add: workflow_def add_edge_def add_conditional_edges_def set_entry_point_def
      add_node_def new_StateGraph_def)

lemma call_model_output:
  "call_model model s = Inr out \<Longrightarrow> \<exists>c tcs. out = [AIMessage c tcs]"
  by (auto simp: call_model_def Let_def split: sum.splits prod.splits)

lemma tool_node_output:
  "tool_node reg s = Inr out \<Longrightarrow> out \<noteq> []"
  by (auto simp: tool_node_def Let_def split: if_splits option.splits)

text \<open>Every step of the graph that completes appends at least one message.\<close>

lemma workflow_step_appends:
  assumes "step (workflow model reg) n s = Inr (s', nxt)"
  shows "\<exists>out. out \<noteq> [] \<and> messages s' = messages s @ out"
proof -
  consider "n = ''agent''" | "n = ''tools''" | "n \<noteq> ''agent''" "n \<noteq> ''tools''" by blast
  then show ?thesis
  proof cases
    case 1
    with assms show ?thesis
      by (auto simp: step_def workflow_nodes workflow_edges Let_def
          split: sum.splits dest!: call_model_output)
  next
    case 2
    with assms show ?thesis
      by (auto simp: step_def workflow_nodes workflow_edges Let_def
          split: sum.splits dest!: tool_node_output)
  next
    case 3
    with assms show ?thesis
      by (simp add: step_def workflow_nodes)
  qed
qed

subsection \<open>Runs\<close>

lemma run_from_states_nonempty: "states (run_from g limit n t st s) \<noteq> []"
  by (cases limit) (auto simp: Let_def split: sum.splits prod.splits target.splits)

lemma run_from_hd: "hd (states (run_from g limit n t st s)) = s"
  by (cases limit) (auto simp: Let_def split: sum.splits prod.splits target.splits)

text \<open>If every completed step of a graph extends the message list, then so does every
  pair of neighbours in the record of a run: induction on the step ceiling.\<close>

lemma run_from_consecutive:
  assumes app: "\<And>n s s' nxt. step g n s = Inr (s', nxt) \<Longrightarrow> strict_prefix (messages s) (messages s')"
  shows "Suc i < length (states (run_from g limit n t st s)) \<Longrightarrow>
         strict_prefix (messages (states (run_from g limit n t st s) ! i))
                       (messages (states (run_from g limit n t st s) ! Suc i))"
proof (induction limit arbitrary: n st s i)
  case 0
  then show ?case by simp
next
  case (Suc limit)
  show ?case
  proof (cases "step g n s")
    case (Inl e)
    with Suc.prems show ?thesis by simp
  next
    case (Inr p)
    obtain s' nxt where p: "p = (s', nxt)" by (cases p)
    have sp: "strict_prefix (messages s) (messages s')" using app Inr p by simp
    show ?thesis
    proof (cases nxt)
      case END
      with Suc.prems Inr p sp show ?thesis by (cases i) (simp_all add: Let_def)
    next
      case (Node m)
      let ?r = "run_from g limit m t (put t s' st) s'"
      have st: "states (run_from g (Suc limit) n t st s) = s # states ?r"
        using Inr p Node by (simp add: Let_def)
      show ?thesis
      proof (cases i)
        case 0
        have "states ?r ! 0 = s'"
          using run_from_hd[of g limit m t "put t s' st" s']
            run_from_states_nonempty[of g limit m t "put t s' st" s']
          by (simp add: hd_conv_nth)
        with st 0 sp show ?thesis by simp
      next
        case (Suc j)
        with Suc.prems st have "Suc j < length (states ?r)" by simp
        from Suc.IH[OF this] st Suc show ?thesis by simp
      qed
    qed
  qed
qed

lemma sample_run_states:
  "states (invoke (workflow model_sample registry_sample) 25 (42::nat)
             [HumanMessage ''How do I blow out?''] MemorySaver)
   = [\<lparr>messages = [HumanMessage ''How do I blow out?'']\<rparr>,
      \<lparr>messages = [HumanMessage ''How do I blow out?'',
                   AIMessage [] [\<lparr>call_id = ''c1'', name = ''search_opentrons_docs'', args = ''blow out''\<rparr>]]\<rparr>,
      \<lparr>messages = [HumanMessage ''How do I blow out?'',
                   AIMessage [] [\<lparr>call_id = ''c1'', name = ''search_opentrons_docs'', args = ''blow out''\<rparr>],
                   ToolMessage ''InstrumentContext.blow_out'']\<rparr>,
      \<lparr>messages = [HumanMessage ''How do I blow out?'',
                   AIMessage [] [\<lparr>call_id = ''c1'', name = ''search_opentrons_docs'', args = ''blow out''\<rparr>],
                   ToolMessage ''InstrumentContext.blow_out'',
                   AIMessage ''Use blow_out().'' []]\<rparr>]"
  by code_simp

subsection \<open>The router\<close>

text \<open>
  C1. The router is a function of the last message of the state alone: when that message
  is an assistant message with at least one tool call the result is the node
  \<open>tools\<close>, when it has no tool call the result is \<open>END\<close>; two states with the same
  last message get the same answer. The function returns a value and nothing else, so it
  has no effect on any state.
\<close>

theorem should_continue_last_message:
  assumes "messages s \<noteq> []"
    and "role (last (messages s)) = assistant"
    and "tool_calls (last (messages s)) = Some tcs"
    and "messages s' \<noteq> []"
    and "last (messages s') = last (messages s)"
  shows "should_continue s = (if tcs \<noteq> [] then Inr (Node ''tools'') else Inr END)
         \<and> should_continue s' = should_continue s"
  using assms by (simp add: should_continue_def Let_def)

theorem should_continue_last_message_witness:
  "should_continue \<lparr>messages = [HumanMessage ''q'', AIMessage ''a'' []]\<rparr> = Inr END
   \<and> should_continue
        \<lparr>messages = [HumanMessage ''q'',
                     AIMessage [] [\<lparr>call_id = ''c1'', name = ''search_opentrons_docs'', args = ''blow out''\<rparr>]]\<rparr>
       = Inr (Node ''tools'')
   \<and> should_continue \<lparr>messages = [AIMessage ''a'' []]\<rparr>
       = should_continue \<lparr>messages = [HumanMessage ''q'', AIMessage ''a'' []]\<rparr>"
  using should_continue_last_message
          [of "\<lparr>messages = [HumanMessage ''q'', AIMessage ''a'' []]\<rparr>" "[]"
              "\<lparr>messages = [AIMessage ''a'' []]\<rparr>"]
        should_continue_last_message
          [of "\<lparr>messages = [HumanMessage ''q'',
                 AIMessage [] [\<lparr>call_id = ''c1'', name = ''search_opentrons_docs'', args = ''blow out''\<rparr>]]\<rparr>"
              "[\<lparr>call_id = ''c1'', name = ''search_opentrons_docs'', args = ''blow out''\<rparr>]"
              "\<lparr>messages = [HumanMessage ''q'',
                 AIMessage [] [\<lparr>call_id = ''c1'', name = ''search_opentrons_docs'', args = ''blow out''\<rparr>]]\<rparr>"]
  by (simp add: AIMessage_def HumanMessage_def)

text \<open>
  C9. The router is partial: on the empty message list it raises \<open>IndexError\<close>; on a last
  message without the attribute \<open>tool_calls\<close> it raises \<open>AttributeError\<close>; it never
  looks at the role, so a last message of any role that has the attribute is routed by
  its tool calls; and it returns a target exactly when the list is not empty and its last
  message has the attribute.
\<close>

theorem should_continue_partial:
  "should_continue \<lparr>messages = []\<rparr> = Inl IndexError
   \<and> should_continue \<lparr>messages = ms @ [\<lparr>role = r, content = c, tool_calls = None\<rparr>]\<rparr>
       = Inl (AttributeError ''tool_calls'')
   \<and> should_continue \<lparr>messages = ms @ [\<lparr>role = r, content = c, tool_calls = Some tcs\<rparr>]\<rparr>
       = (if tcs \<noteq> [] then Inr (Node ''tools'') else Inr END)
   \<and> ((\<exists>t. should_continue s = Inr t)
        = (messages s \<noteq> [] \<and> tool_calls (last (messages s)) \<noteq> None))"
  by (auto simp: should_continue_def Let_def split: option.splits)

subsection \<open>The checkpoint store\<close>

text \<open>
  C5. Round trip of the checkpoint store: \<open>get\<close> after \<open>put\<close> on the same thread
  returns the state that was put; a second \<open>put\<close> on the thread replaces the first; a
  thread that was never put is \<open>NotFound\<close>.
\<close>

theorem checkpoint_round_trip:
  "get t (put t s st) = Found s
   \<and> get t (put t s' (put t s st)) = Found s'
   \<and> put t s' (put t s st) = put t s' st
   \<and> get t' (put t s MemorySaver) = (if t' = t then Found s else NotFound)
   \<and> get t MemorySaver = NotFound"
  by (simp add: get_def put_def MemorySaver_def)

subsection \<open>Append-only history\<close>

text \<open>
  C6. In the record of every run of the notebook's graph, the message list of each state
  is a strict prefix of the message list of the next one: a completed step only appends
  messages (at least one), it never reorders, changes or removes earlier ones.
\<close>

theorem messages_append_only:
  assumes "Suc i < length (states (invoke (workflow model reg) limit t input st))"
  shows "strict_prefix
           (messages (states (invoke (workflow model reg) limit t input st) ! i))
           (messages (states (invoke (workflow model reg) limit t input st) ! Suc i))"
proof -
  have app: "\<And>n s s' nxt. step (workflow model reg) n s = Inr (s', nxt)
               \<Longrightarrow> strict_prefix (messages s) (messages s')"
    using workflow_step_appends by (fastforce simp: strict_prefix_def prefix_def)
  from assms run_from_consecutive[of "workflow model reg", OF app] show ?thesis
    by (simp add: invoke_def Let_def workflow_edges)
qed

theorem messages_append_only_witness:
  "Suc 1 < length (states (invoke (workflow model_sample registry_sample) 25 (42::nat)
                             [HumanMessage ''How do I blow out?''] MemorySaver))
   \<and> strict_prefix
        [HumanMessage ''How do I blow out?'',
         AIMessage [] [\<lparr>call_id = ''c1'', name = ''search_opentrons_docs'', args = ''blow out''\<rparr>]]
        [HumanMessage ''How do I blow out?'',
         AIMessage [] [\<lparr>call_id = ''c1'', name = ''search_opentrons_docs'', args = ''blow out''\<rparr>],
         ToolMessage ''InstrumentContext.blow_out'']"
  using messages_append_only
          [of 1 model_sample registry_sample 25 "42::nat"
              "[HumanMessage ''How do I blow out?'']" MemorySaver]
  by (simp add: sample_run_states)

subsection \<open>A question answered without a tool\<close>

text \<open>
  C7. A thread without a checkpoint is started with one user message and the model
  answers with no tool call (the step ceiling allows at least one step): the run finishes
  after exactly one step, the router's answer on the final state is \<open>END\<close>, and the
  final state holds exactly two messages, the user message followed by the assistant
  message; the checkpoint of the thread is that state.
\<close>

theorem direct_answer_ends_after_one_step:
  assumes "get t st = NotFound"
    and "model [HumanMessage q] = Inr (c, [])"
    and "0 < limit"
  shows "outcome (invoke (workflow model reg) limit t [HumanMessage q] st) = Finished
         \<and> steps (invoke (workflow model reg) limit t [HumanMessage q] st) = 1
         \<and> messages (final_state (invoke (workflow model reg) limit t [HumanMessage q] st))
             = [HumanMessage q, AIMessage c []]
         \<and> length (messages (final_state (invoke (workflow model reg) limit t [HumanMessage q] st))) = 2
         \<and> should_continue (final_state (invoke (workflow model reg) limit t [HumanMessage q] st))
             = Inr END
         \<and> get t (checkpoints (invoke (workflow model reg) limit t [HumanMessage q] st))
             = Found (final_state (invoke (workflow model reg) limit t [HumanMessage q] st))"
proof -
  obtain k where k: "limit = Suc k" using assms(3) by (cases limit) auto
  have st: "step (workflow model reg) ''agent'' \<lparr>messages = [HumanMessage q]\<rparr>
            = Inr (\<lparr>messages = [HumanMessage q, AIMessage c []]\<rparr>, END)"
    using assms(2)
    by (simp add: step_def workflow_nodes workflow_edges call_model_def Let_def
        should_continue_def AIMessage_def)
  have r: "invoke (workflow model reg) limit t [HumanMessage q] st
           = \<lparr>states = [\<lparr>messages = [HumanMessage q]\<rparr>,
                        \<lparr>messages = [HumanMessage q, AIMessage c []]\<rparr>],
              checkpoints = put t \<lparr>messages = [HumanMessage q, AIMessage c []]\<rparr> st,
              outcome = Finished\<rparr>"
    using assms(1) by (simp add: invoke_def workflow_edges k st Let_def)
  show ?thesis
    by (simp add: r steps_def final_state_def should_continue_def AIMessage_def get_def put_def)
qed

theorem direct_answer_ends_after_one_step_witness:
  "get ''t1'' (MemorySaver :: (string, MessagesState) store) = NotFound
   \<and> model_direct [HumanMessage ''How do I blow out?''] = Inr (''Use blow_out().'', [])
   \<and> (0::nat) < 25
   \<and> outcome (invoke (workflow model_direct registry_sample) 25 ''t1''
                 [HumanMessage ''How do I blow out?''] MemorySaver) = Finished
   \<and> steps (invoke (workflow model_direct registry_sample) 25 ''t1''
               [HumanMessage ''How do I blow out?''] MemorySaver) = 1
   \<and> messages (final_state (invoke (workflow model_direct registry_sample) 25 ''t1''
                               [HumanMessage ''How do I blow out?''] MemorySaver))
       = [HumanMessage ''How do I blow out?'', AIMessage ''Use blow_out().'' []]"
  using direct_answer_ends_after_one_step
          [of "''t1''" MemorySaver model_direct "''How do I blow out?''" "''Use blow_out().''" 25
              registry_sample]
  by (simp add: get_def MemorySaver_def model_direct_def)

subsection \<open>The tool node\<close>

text \<open>
  C2. For every state whose last message is an assistant message with \<open>n\<close> tool calls
  (\<open>n\<close> at least 1, as the router guarantees), the Tool Node returns exactly \<open>n\<close>
  ToolResult messages, the result of the first call first and so on in the order of the
  calls, and the step of the graph appends exactly these to the history and goes back to
  the agent. The results are a function of the registry and the calls alone, so no order
  of completion can change them.
\<close>

theorem tool_node_appends_results_in_order:
  assumes "messages s \<noteq> []"
    and "role (last (messages s)) = assistant"
    and "tool_calls (last (messages s)) = Some tcs"
    and "tcs \<noteq> []"
  shows "tool_node reg s = Inr (map (tool_result reg) tcs)
         \<and> length (map (tool_result reg) tcs) = length tcs
         \<and> list_all (\<lambda>m. role m = tool) (map (tool_result reg) tcs)
         \<and> step (workflow model reg) ''tools'' s
             = Inr (s\<lparr>messages := messages s @ map (tool_result reg) tcs\<rparr>, Node ''agent'')"
proof -
  have node: "tool_node reg s = Inr (map (tool_result reg) tcs)"
    using assms by (simp add: tool_node_def Let_def)
  have roles: "list_all (\<lambda>m. role m = tool) (map (tool_result reg) tcs)"
    by (simp add: list_all_iff tool_result_def ToolMessage_def)
  have "map_of (nodes (workflow model reg)) ''tools'' = Some (tool_node reg)"
    and "map_of (edges (workflow model reg)) ''tools'' = Some ''agent''"
    by (simp_all add: workflow_def add_edge_def add_conditional_edges_def set_entry_point_def
        add_node_def new_StateGraph_def)
  then have "step (workflow model reg) ''tools'' s
             = Inr (s\<lparr>messages := messages s @ map (tool_result reg) tcs\<rparr>, Node ''agent'')"
    using node by (simp add: step_def Let_def)
  with node roles show ?thesis by simp
qed

theorem tool_node_appends_results_in_order_witness:
  "messages state_two_calls \<noteq> []
   \<and> role (last (messages state_two_calls)) = assistant
   \<and> tool_calls (last (messages state_two_calls)) = Some two_calls
   \<and> two_calls \<noteq> []
   \<and> tool_node registry_sample state_two_calls
       = Inr [ToolMessage ''InstrumentContext.blow_out'', ToolMessage ''Error: UnknownTool'']
   \<and> step (workflow model_sample registry_sample) ''tools'' state_two_calls
       = Inr (\<lparr>messages = [HumanMessage ''How do I blow out?'', AIMessage [] two_calls,
                            ToolMessage ''InstrumentContext.blow_out'',
                            ToolMessage ''Error: UnknownTool'']\<rparr>, Node ''agent'')"
  using tool_node_appends_results_in_order
          [of state_two_calls two_calls registry_sample model_sample]
  by (simp add: state_two_calls_def two_calls_def AIMessage_def registry_sample_def
      tool_result_def)

section \<open>Properties of the function calling loop\<close>

text \<open>When every call runs to its end, the loop appends the messages of the registered
  calls, in the order of the calls, and nothing for the others.\<close>

lemma dispatch_loop_completes:
  "list_all (completes json_loads available_functions) tcs \<Longrightarrow>
   dispatch_loop json_loads available_functions tcs msgs
     = (msgs @ map (response_message json_loads available_functions)
                 (filter (registered available_functions) tcs), None)"
proof (induction tcs arbitrary: msgs)
  case Nil
  then show ?case by simp
next
  case (Cons tc tcs)
  then show ?case
    by (auto simp: completes_def call_raises_def registered_def response_message_def
        function_message_def Let_def split: sum.splits option.splits)
qed

text \<open>The loop over a concatenation: the second part runs on the messages the first left,
  unless the first part raised.\<close>

lemma dispatch_loop_append:
  "dispatch_loop json_loads available_functions (xs @ ys) msgs
     = (case dispatch_loop json_loads available_functions xs msgs of
          (msgs', None) \<Rightarrow> dispatch_loop json_loads available_functions ys msgs'
        | (msgs', Some e) \<Rightarrow> (msgs', Some e))"
  by (induction xs arbitrary: msgs) (auto simp: Let_def split: sum.splits option.splits)

text \<open>
  C3 (amended). A call whose name is not registered and whose arguments decode is
  skipped: the loop appends no message for it, raises nothing and goes on with the next
  call; after a lone such call the model is asked again with the unchanged messages.
\<close>

theorem unknown_tool_is_skipped:
  assumes "available_functions (fn_name (func tool_call)) = None"
    and "json_loads (fn_arguments (func tool_call)) = Inr function_args"
  shows "dispatch_loop json_loads available_functions (tool_call # rest) msgs
           = dispatch_loop json_loads available_functions rest msgs
         \<and> dispatch_loop json_loads available_functions [tool_call] msgs = (msgs, None)
         \<and> tool_calls_cell json_loads available_functions create (Some [tool_call]) msgs
           = (msgs, map_sum id Some (create msgs))"
  using assms by (simp add: tool_calls_cell_def split: sum.splits)

theorem unknown_tool_is_skipped_witness:
  "available_functions_sample (fn_name (func (mk_tool_call ''call_1'' ''search_opentrons_docs'' ''{}''))) = None
   \<and> json_loads_sample (fn_arguments (func (mk_tool_call ''call_1'' ''search_opentrons_docs'' ''{}''))) = Inr []
   \<and> dispatch_loop json_loads_sample available_functions_sample
        [mk_tool_call ''call_1'' ''search_opentrons_docs'' ''{}'']
        [[(''role'', ''user''), (''content'', ''how do I blow out?'')]]
      = ([[(''role'', ''user''), (''content'', ''how do I blow out?'')]], None)"
  using unknown_tool_is_skipped
          [of available_functions_sample "mk_tool_call ''call_1'' ''search_opentrons_docs'' ''{}''"
              json_loads_sample "[]" "[]"
              "[[(''role'', ''user''), (''content'', ''how do I blow out?'')]]"]
  by (simp add: json_loads_sample_def available_functions_sample_def mk_tool_call_def)

text \<open>A call to an unregistered name leaves no message at all, in particular none with
  an error description.\<close>

theorem unknown_tool_counterexample:
  "available_functions_sample ''search_opentrons_docs'' = None
   \<and> tool_calls_cell json_loads_sample available_functions_sample create_sample
        (Some [mk_tool_call ''call_1'' ''search_opentrons_docs'' ''{}''])
        [[(''role'', ''user''), (''content'', ''how do I blow out?'')]]
      = ([[(''role'', ''user''), (''content'', ''how do I blow out?'')]], Inr (Some ''explanation''))"
  by (simp add: tool_calls_cell_def json_loads_sample_def available_functions_sample_def
      mk_tool_call_def create_sample_def)

text \<open>
  C4 (amended). A call whose arguments do not decode, or whose decoded arguments the
  registered function does not accept, ends the cell with the exception raised: no
  message is appended for it or for any later call, the messages of the calls before it
  stay, and the model is not asked again.
\<close>

theorem malformed_arguments_abort:
  assumes "call_raises json_loads available_functions tool_call = Some e"
    and "list_all (completes json_loads available_functions) before"
  shows "dispatch_loop json_loads available_functions (before @ tool_call # rest) msgs
           = (fst (dispatch_loop json_loads available_functions before msgs), Some e)
         \<and> tool_calls_cell json_loads available_functions create
             (Some (before @ tool_call # rest)) msgs
           = (fst (dispatch_loop json_loads available_functions before msgs), Inl e)"
proof -
  have "dispatch_loop json_loads available_functions (tool_call # rest) m = (m, Some e)" for m
    using assms(1) by (simp add: call_raises_def split: sum.splits option.splits)
  then show ?thesis
    using dispatch_loop_completes[OF assms(2), of msgs]
    by (simp add: dispatch_loop_append tool_calls_cell_def)
qed

theorem malformed_arguments_abort_witness:
  "call_raises json_loads_sample available_functions_sample
     (mk_tool_call ''call_2'' ''generate_opentrons_code'' ''{'') = Some JSONDecodeError
   \<and> call_raises json_loads_sample available_functions_sample
     (mk_tool_call ''call_2'' ''generate_opentrons_code'' ''{}'') = Some TypeError
   \<and> list_all (completes json_loads_sample available_functions_sample)
        [mk_tool_call ''call_1'' ''generate_opentrons_code'' ''{\"command\": \"mix\"}'']
   \<and> dispatch_loop json_loads_sample available_functions_sample
       ([mk_tool_call ''call_1'' ''generate_opentrons_code'' ''{\"command\": \"mix\"}'']
        @ mk_tool_call ''call_2'' ''generate_opentrons_code'' ''{'' # [])
       [[(''role'', ''user''), (''content'', ''mix the plate'')]]
     = ([[(''role'', ''user''), (''content'', ''mix the plate'')],
         [(''role'', ''function''), (''name'', ''generate_opentrons_code''),
          (''content'', generate_opentrons_code ''mix'')]], Some JSONDecodeError)
   \<and> dispatch_loop json_loads_sample available_functions_sample
       ([mk_tool_call ''call_1'' ''generate_opentrons_code'' ''{\"command\": \"mix\"}'']
        @ mk_tool_call ''call_2'' ''generate_opentrons_code'' ''{}'' # [])
       [[(''role'', ''user''), (''content'', ''mix the plate'')]]
     = ([[(''role'', ''user''), (''content'', ''mix the plate'')],
         [(''role'', ''function''), (''name'', ''generate_opentrons_code''),
          (''content'', generate_opentrons_code ''mix'')]], Some TypeError)"
  using malformed_arguments_abort
          [of json_loads_sample available_functions_sample
              "mk_tool_call ''call_2'' ''generate_opentrons_code'' ''{''" JSONDecodeError
              "[mk_tool_call ''call_1'' ''generate_opentrons_code'' ''{\"command\": \"mix\"}'']" "[]"
              "[[(''role'', ''user''), (''content'', ''mix the plate'')]]"]
        malformed_arguments_abort
          [of json_loads_sample available_functions_sample
              "mk_tool_call ''call_2'' ''generate_opentrons_code'' ''{}''" TypeError
              "[mk_tool_call ''call_1'' ''generate_opentrons_code'' ''{\"command\": \"mix\"}'']" "[]"
              "[[(''role'', ''user''), (''content'', ''mix the plate'')]]"]
  by (simp add: json_loads_sample_def mk_tool_call_def completes_def call_raises_def
      available_functions_sample_def generate_opentrons_code_kwargs_def)

text \<open>The payload \<open>{\<close> for the registered function: the cell ends with
  \<open>JSONDecodeError\<close>, the messages are unchanged and the model is not asked again.\<close>

theorem malformed_arguments_counterexample:
  "json_loads_sample ''{'' = Inl JSONDecodeError
   \<and> tool_calls_cell json_loads_sample available_functions_sample create_sample
        (Some [mk_tool_call ''call_1'' ''generate_opentrons_code'' ''{''])
        [[(''role'', ''user''), (''content'', ''mix the plate'')]]
      = ([[(''role'', ''user''), (''content'', ''mix the plate'')]], Inl JSONDecodeError)"
  by (simp add: tool_calls_cell_def json_loads_sample_def mk_tool_call_def)

section \<open>Properties of the deck layout templater\<close>

subsection \<open>Which exceptions the generator raises\<close>

lemma map_err_Inl: "map_err f xs = Inl e \<Longrightarrow> \<exists>x \<in> set xs. f x = Inl e"
  by (induction xs arbitrary: e) (auto split: sum.splits)

lemma map_err_fails: "x \<in> set xs \<Longrightarrow> f x = Inl e \<Longrightarrow> \<exists>e'. map_err f xs = Inl e'"
  by (induction xs) (auto split: sum.splits)

lemma map_err_Inr: "map_err f xs = Inr ys \<Longrightarrow> x \<in> set xs \<Longrightarrow> \<exists>y \<in> set ys. f x = Inr y"
  by (induction xs arbitrary: ys) (auto split: sum.splits)

lemma getitem_dict:
  "getitem (JDict d) (JStr k) = (case map_of d k of None \<Rightarrow> Inl (KeyError (JStr k)) | Some x \<Rightarrow> Inr x)"
  by (simp add: getitem_def hashable_def)

lemma getitem_not_dict: "\<not> is_dict v \<Longrightarrow> getitem v (JStr k) = Inl TypeError"
  by (cases v) (simp_all add: getitem_def is_dict_def as_index_def)

lemma is_dictD: "is_dict v \<Longrightarrow> \<exists>d. v = JDict d"
  by (cases v) (simp_all add: is_dict_def)

lemma is_textD: "is_text v \<Longrightarrow> \<exists>s. v = JStr s"
  by (cases v) (simp_all add: is_text_def)

lemma section_kindD:
  "section_kind entry_kind (Some v) \<Longrightarrow> \<exists>entries. v = JDict entries \<and> (\<forall>item \<in> set entries. entry_kind (snd item))"
  by (cases v) (simp_all add: section_kind_def list_all_iff)

lemma tip_rack_text_error:
  assumes lab: "section_kind is_dict (map_of d ''labware'')"
    and rack: "is_text rack"
    and err: "tip_rack_text str_other (JDict d) rack = Inl e"
  shows "\<exists>k. e = KeyError k"
proof (cases "map_of d ''labware''")
  case None
  with err show ?thesis
    by (auto simp: tip_rack_text_def bind_err_def getitem_dict)
next
  case (Some v)
  with lab obtain lw where lw: "v = JDict lw" "\<forall>item \<in> set lw. is_dict (snd item)"
    using section_kindD[of is_dict v] by auto
  obtain slot where slot: "rack = JStr slot" using rack is_textD by blast
  show ?thesis
  proof (cases "map_of lw slot")
    case None
    with err Some lw slot show ?thesis
      by (auto simp: tip_rack_text_def bind_err_def getitem_dict)
  next
    case entry: (Some entry)
    then have "(slot, entry) \<in> set lw" by (rule map_of_SomeD)
    with lw(2) have "is_dict entry" by auto
    then obtain en where "entry = JDict en" using is_dictD by blast
    with err Some lw slot entry show ?thesis
      by (auto simp: tip_rack_text_def bind_err_def getitem_dict split: option.splits)
  qed
qed

lemma tip_racks_error:
  assumes "section_kind is_dict (map_of d ''labware'')"
    and "list_all is_text racks"
    and "map_err (tip_rack_text str_other (JDict d)) racks = Inl e"
  shows "\<exists>k. e = KeyError k"
proof -
  obtain rack where "rack \<in> set racks" "tip_rack_text str_other (JDict d) rack = Inl e"
    using map_err_Inl[OF assms(3)] by blast
  with assms(1,2) show ?thesis
    using tip_rack_text_error[of d rack str_other e] by (auto simp: list_all_iff)
qed

lemma pipette_line_error:
  assumes lab: "section_kind is_dict (map_of d ''labware'')"
    and kind: "pipette_kind (snd item)"
    and err: "pipette_line str_other (JDict d) item = Inl e"
  shows "\<exists>k. e = KeyError k"
proof -
  obtain mount pipette where item: "item = (mount, pipette)" by (cases item)
  from kind item obtain p where p: "pipette = JDict p"
    by (cases pipette) (simp_all add: pipette_kind_def)
  show ?thesis
  proof (cases "map_of p ''tip_racks''")
    case None
    with err item p show ?thesis
      by (auto simp: pipette_line_def bind_err_def getitem_dict)
  next
    case (Some tr)
    with kind item p obtain racks where racks: "tr = JList racks" "list_all is_text racks"
      by (cases tr) (simp_all add: pipette_kind_def)
    show ?thesis
    proof (cases "map_err (tip_rack_text str_other (JDict d)) racks")
      case (Inl e1)
      with err item p Some racks have "e = e1"
        by (simp add: pipette_line_def bind_err_def getitem_dict iterate_def)
      with Inl show ?thesis using tip_racks_error[OF lab racks(2)] by blast
    next
      case (Inr texts)
      with err item p Some racks show ?thesis
        by (auto simp: pipette_line_def bind_err_def getitem_dict iterate_def Let_def
            split: option.splits)
    qed
  qed
qed

lemma pipette_lines_error:
  assumes "section_kind is_dict (map_of d ''labware'')"
    and "\<forall>item \<in> set ps. pipette_kind (snd item)"
    and "map_err (pipette_line str_other (JDict d)) ps = Inl e"
  shows "\<exists>k. e = KeyError k"
proof -
  obtain item where "item \<in> set ps" "pipette_line str_other (JDict d) item = Inl e"
    using map_err_Inl[OF assms(3)] by blast
  with assms(1,2) show ?thesis
    using pipette_line_error[of d item str_other e] by auto
qed

lemma index_seq_first: "index_seq xs 0 = (case xs of [] \<Rightarrow> Inl IndexError | x # _ \<Rightarrow> Inr x)"
  by (cases xs) (simp_all add: index_seq_def Let_def)

lemma getitem_list_first:
  "getitem (JList xs) (JInt 0) = (case xs of [] \<Rightarrow> Inl IndexError | x # _ \<Rightarrow> Inr x)"
  by (simp add: getitem_def as_index_def index_seq_first)

lemma module_line_error:
  assumes kind: "module_kind (snd item)"
    and err: "module_line str_other item = Inl e"
  shows "(\<exists>k. e = KeyError k) \<or> (e = IndexError \<and> \<not> located (snd item))"
proof -
  obtain mname info where item: "item = (mname, info)" by (cases item)
  from kind item obtain m where m: "info = JDict m"
    by (cases info) (simp_all add: module_kind_def)
  show ?thesis
  proof (cases "map_of m ''type''")
    case None
    with err item m show ?thesis
      by (auto simp: module_line_def bind_err_def getitem_dict)
  next
    case ty: (Some ty)
    show ?thesis
    proof (cases "map_of m ''location''")
      case None
      with err item m ty show ?thesis
        by (auto simp: module_line_def bind_err_def getitem_dict)
    next
      case (Some loc)
      with kind item m obtain xs where xs: "loc = JList xs"
        by (cases loc) (simp_all add: module_kind_def)
      show ?thesis
      proof (cases xs)
        case Nil
        with err item m ty Some xs show ?thesis
          by (auto simp: module_line_def bind_err_def getitem_dict getitem_list_first located_def)
      next
        case (Cons x rest)
        with err item m ty Some xs show ?thesis
          by (auto simp: module_line_def bind_err_def getitem_dict getitem_list_first)
      qed
    qed
  qed
qed

lemma module_lines_error:
  assumes "\<forall>item \<in> set ms. module_kind (snd item)"
    and "map_err (module_line str_other) ms = Inl e"
  shows "(\<exists>k. e = KeyError k) \<or> (e = IndexError \<and> \<not> list_all (\<lambda>item. located (snd item)) ms)"
proof -
  obtain item where mem: "item \<in> set ms" and err: "module_line str_other item = Inl e"
    using map_err_Inl[OF assms(2)] by blast
  have "\<not> list_all (\<lambda>item. located (snd item)) ms" if "\<not> located (snd item)"
    unfolding list_all_iff using mem that by blast
  moreover have "module_kind (snd item)" using assms(1) mem by blast
  ultimately show ?thesis
    using module_line_error[OF _ err] by blast
qed

lemma labware_line_error:
  assumes kind: "is_dict (snd item)"
    and err: "labware_line str_other item = Inl e"
  shows "\<exists>k. e = KeyError k"
proof -
  obtain slot lw where item: "item = (slot, lw)" by (cases item)
  from kind item obtain l where l: "lw = JDict l" using is_dictD by auto
  from err item l show ?thesis
    by (auto simp: labware_line_def bind_err_def contains_def getitem_dict
        split: option.splits if_splits)
qed

lemma labware_lines_error:
  assumes "\<forall>item \<in> set lw. is_dict (snd item)"
    and "map_err (labware_line str_other) lw = Inl e"
  shows "\<exists>k. e = KeyError k"
proof -
  obtain item where "item \<in> set lw" "labware_line str_other item = Inl e"
    using map_err_Inl[OF assms(2)] by blast
  with assms(1) show ?thesis
    using labware_line_error[of item str_other e] by auto
qed

lemma initialize_deck_code_error:
  assumes kinds: "kinds_ok (JDict d)"
    and err: "initialize_deck_code str_other (JDict d) = Inl e"
  shows "(\<exists>k. e = KeyError k) \<or> (e = IndexError \<and> \<not> no_empty_location (JDict d))"
proof -
  from kinds have pk: "section_kind pipette_kind (map_of d ''pipettes'')"
    and mk: "section_kind module_kind (map_of d ''modules'')"
    and lk: "section_kind is_dict (map_of d ''labware'')"
    by (simp_all add: kinds_ok_def)
  show ?thesis
  proof (cases "map_of d ''api_version''")
    case None
    with err show ?thesis
      by (auto simp: initialize_deck_code_def bind_err_def getitem_dict)
  next
    case api: (Some api)
    show ?thesis
    proof (cases "map_of d ''pipettes''")
      case None
      with err api show ?thesis
        by (auto simp: initialize_deck_code_def bind_err_def getitem_dict)
    next
      case pv: (Some pv)
      with pk obtain ps where ps: "pv = JDict ps" "\<forall>item \<in> set ps. pipette_kind (snd item)"
        using section_kindD[of pipette_kind pv] by auto
      show ?thesis
      proof (cases "map_err (pipette_line str_other (JDict d)) ps")
        case (Inl e1)
        with err api pv ps have "e = e1"
          by (simp add: initialize_deck_code_def bind_err_def getitem_dict items_def)
        with Inl show ?thesis using pipette_lines_error[OF lk ps(2)] by blast
      next
        case pl: (Inr pls)
        obtain ms where ms: "get_default (JDict d) ''modules'' (JDict []) = Inr (JDict ms)"
          "\<forall>item \<in> set ms. module_kind (snd item)"
          "no_empty_location (JDict d) = list_all (\<lambda>item. located (snd item)) ms"
        proof (cases "map_of d ''modules''")
          case None
          then show ?thesis
            using that[of "[]"] by (simp add: get_default_def no_empty_location_def)
        next
          case (Some mv)
          with mk obtain ms' where "mv = JDict ms'" "\<forall>item \<in> set ms'. module_kind (snd item)"
            using section_kindD[of module_kind mv] by auto
          with Some show ?thesis
            using that[of ms'] by (simp add: get_default_def no_empty_location_def)
        qed
        show ?thesis
        proof (cases "map_err (module_line str_other) ms")
          case (Inl e1)
          with err api pv ps pl ms(1) have "e = e1"
            by (simp add: initialize_deck_code_def bind_err_def getitem_dict items_def)
          with Inl show ?thesis
            using module_lines_error[OF ms(2), of str_other e] ms(3) by simp
        next
          case ml: (Inr mls)
          show ?thesis
          proof (cases "map_of d ''labware''")
            case None
            with err api pv ps pl ms(1) ml show ?thesis
              by (auto simp: initialize_deck_code_def bind_err_def getitem_dict items_def)
          next
            case lv: (Some lv)
            with lk obtain lw where lw: "lv = JDict lw" "\<forall>item \<in> set lw. is_dict (snd item)"
              using section_kindD[of is_dict lv] by auto
            show ?thesis
            proof (cases "map_err (labware_line str_other) lw")
              case (Inl e1)
              with err api pv ps pl ms(1) ml lv lw have "e = e1"
                by (simp add: initialize_deck_code_def bind_err_def getitem_dict items_def)
              with Inl show ?thesis using labware_lines_error[OF lw(2)] by blast
            next
              case (Inr lls)
              with err api pv ps pl ms(1) ml lv lw show ?thesis
                by (simp add: initialize_deck_code_def bind_err_def getitem_dict items_def)
            qed
          qed
        qed
      qed
    qed
  qed
qed

lemma initialize_deck_error:
  "kinds_ok (JDict d) \<Longrightarrow> initialize_deck str_other (JDict d) = Inl e \<Longrightarrow>
   (\<exists>k. e = KeyError k) \<or> (e = IndexError \<and> \<not> no_empty_location (JDict d))"
  using initialize_deck_code_error[of d str_other e]
  by (simp add: initialize_deck_def split: sum.splits)

lemma initialize_deck_isl:
  "isl (initialize_deck str_other config) = isl (initialize_deck_code str_other config)"
  by (simp add: initialize_deck_def split: sum.splits)

lemma initialize_deck_not_dict:
  "\<not> is_dict config \<Longrightarrow> initialize_deck str_other config = Inl TypeError"
  by (simp add: initialize_deck_def initialize_deck_code_def bind_err_def getitem_not_dict)

lemma initialize_deck_without_api_version:
  "map_of d ''api_version'' = None \<Longrightarrow>
   initialize_deck str_other (JDict d) = Inl (KeyError (JStr ''api_version''))"
  by (simp add: initialize_deck_def initialize_deck_code_def bind_err_def getitem_dict)

lemma initialize_deck_without_pipettes:
  "map_of d ''pipettes'' = None \<Longrightarrow> \<exists>k. initialize_deck str_other (JDict d) = Inl (KeyError k)"
  by (cases "map_of d ''api_version''")
    (simp_all add: initialize_deck_def initialize_deck_code_def bind_err_def getitem_dict)

lemma bind_err_isl: "isl r \<Longrightarrow> isl (bind_err r f)"
  by (cases r) (simp_all add: bind_err_def)

lemma bind_err_isl_cont: "(\<And>v. isl (f v)) \<Longrightarrow> isl (bind_err r f)"
  by (cases r) (simp_all add: bind_err_def)

lemma initialize_deck_without_labware:
  assumes "map_of d ''labware'' = None"
  shows "isl (initialize_deck str_other (JDict d))"
proof -
  have "isl (getitem (JDict d) (JStr ''labware''))"
    using assms by (simp add: getitem_dict)
  then show ?thesis
    unfolding initialize_deck_isl initialize_deck_code_def Let_def
    by (intro bind_err_isl_cont bind_err_isl)
qed

lemma getitem_snoc_other:
  "k \<noteq> k' \<Longrightarrow> getitem (JDict (d @ [(k', x)])) (JStr k) = getitem (JDict d) (JStr k)"
  by (simp add: getitem_dict map_add_def split: option.splits)

lemma get_default_snoc:
  "map_of d k = None \<Longrightarrow> get_default (JDict (d @ [(k, x)])) k dflt = Inr x"
  by (simp add: get_default_def map_add_def)

lemma get_default_absent:
  "map_of d k = None \<Longrightarrow> get_default (JDict d) k dflt = Inr dflt"
  by (simp add: get_default_def)

lemma tip_rack_text_snoc_modules:
  "tip_rack_text str_other (JDict (d @ [(''modules'', x)])) = tip_rack_text str_other (JDict d)"
  by (rule ext) (simp add: tip_rack_text_def getitem_snoc_other)

lemma pipette_line_snoc_modules:
  "pipette_line str_other (JDict (d @ [(''modules'', x)])) = pipette_line str_other (JDict d)"
  by (rule ext) (simp add: pipette_line_def tip_rack_text_snoc_modules)

lemma initialize_deck_modules_default:
  assumes "map_of d ''modules'' = None"
  shows "initialize_deck str_other (JDict d)
         = initialize_deck str_other (JDict (d @ [(''modules'', JDict [])]))"
  using assms
  by (simp add: initialize_deck_def initialize_deck_code_def pipette_line_snoc_modules
      getitem_snoc_other get_default_snoc get_default_absent)

lemma names_absent_slotD:
  assumes "names_absent_slot lw pipette"
  shows "\<exists>p racks slot. pipette = JDict p \<and> map_of p ''tip_racks'' = Some (JList racks)
           \<and> JStr slot \<in> set racks \<and> map_of lw slot = None"
proof -
  from assms obtain p where p: "pipette = JDict p"
    by (cases pipette) (simp_all add: names_absent_slot_def)
  from assms p obtain tr where tr: "map_of p ''tip_racks'' = Some tr"
    by (cases "map_of p ''tip_racks''") (simp_all add: names_absent_slot_def)
  from assms p tr obtain racks where racks: "tr = JList racks"
    by (cases tr) (simp_all add: names_absent_slot_def)
  from assms p tr racks obtain rack where rack: "rack \<in> set racks"
    "(case rack of JStr slot \<Rightarrow> (case map_of lw slot of None \<Rightarrow> True | Some x \<Rightarrow> False) | _ \<Rightarrow> False)"
    by (auto simp: names_absent_slot_def list_ex_iff)
  from rack(2) obtain slot where slot: "rack = JStr slot"
    by (cases rack) simp_all
  with rack(2) have "map_of lw slot = None"
    by (cases "map_of lw slot") simp_all
  with p tr racks rack(1) slot show ?thesis by blast
qed

lemma dangling_tip_rackD:
  assumes "dangling_tip_rack (JDict d)"
  shows "\<exists>ps lw item. map_of d ''pipettes'' = Some (JDict ps) \<and> map_of d ''labware'' = Some (JDict lw)
           \<and> item \<in> set ps \<and> names_absent_slot lw (snd item)"
proof -
  from assms obtain pv where pv: "map_of d ''pipettes'' = Some pv"
    by (cases "map_of d ''pipettes''") (simp_all add: dangling_tip_rack_def)
  from assms pv obtain ps where ps: "pv = JDict ps"
    by (cases pv) (simp_all add: dangling_tip_rack_def)
  from assms pv ps obtain lv where lv: "map_of d ''labware'' = Some lv"
    by (cases "map_of d ''labware''") (simp_all add: dangling_tip_rack_def)
  from assms pv ps lv obtain lw where lw: "lv = JDict lw"
    by (cases lv) (simp_all add: dangling_tip_rack_def)
  from assms pv ps lv lw obtain item where "item \<in> set ps" "names_absent_slot lw (snd item)"
    by (auto simp: dangling_tip_rack_def list_ex_iff)
  with pv ps lv lw show ?thesis by blast
qed

lemma dangling_pipette_line:
  assumes "map_of d ''labware'' = Some (JDict lw)" and "names_absent_slot lw (snd item)"
  shows "isl (pipette_line str_other (JDict d) item)"
proof -
  obtain p racks slot where p: "snd item = JDict p" "map_of p ''tip_racks'' = Some (JList racks)"
    "JStr slot \<in> set racks" "map_of lw slot = None"
    using names_absent_slotD[OF assms(2)] by blast
  have "tip_rack_text str_other (JDict d) (JStr slot) = Inl (KeyError (JStr slot))"
    using assms(1) p(4) by (simp add: tip_rack_text_def bind_err_def getitem_dict)
  then obtain e where "map_err (tip_rack_text str_other (JDict d)) racks = Inl e"
    using map_err_fails[of "JStr slot" racks "tip_rack_text str_other (JDict d)"] p(3) by blast
  with p(1,2) show ?thesis
    by (cases item) (simp add: pipette_line_def bind_err_def getitem_dict iterate_def)
qed

lemma initialize_deck_dangling:
  assumes "dangling_tip_rack (JDict d)"
  shows "isl (initialize_deck str_other (JDict d))"
proof -
  obtain ps lw item where d: "map_of d ''pipettes'' = Some (JDict ps)"
    "map_of d ''labware'' = Some (JDict lw)" "item \<in> set ps" "names_absent_slot lw (snd item)"
    using dangling_tip_rackD[OF assms] by blast
  obtain e where "pipette_line str_other (JDict d) item = Inl e"
    using dangling_pipette_line[OF d(2) d(4), of str_other]
    by (cases "pipette_line str_other (JDict d) item") simp_all
  then obtain e' where "map_err (pipette_line str_other (JDict d)) ps = Inl e'"
    using map_err_fails[of item ps "pipette_line str_other (JDict d)" e] d(3) by blast
  with d(1) show ?thesis
    by (cases "map_of d ''api_version''")
      (simp_all add: initialize_deck_def initialize_deck_code_def bind_err_def getitem_dict items_def)
qed

lemma initialize_deck_dangling_key_error:
  assumes "dangling_tip_rack (JDict d)" and "kinds_ok (JDict d)"
  shows "\<exists>k. initialize_deck str_other (JDict d) = Inl (KeyError k)"
proof -
  obtain e where e: "initialize_deck str_other (JDict d) = Inl e"
    using initialize_deck_dangling[OF assms(1), of str_other]
    by (cases "initialize_deck str_other (JDict d)") simp_all
  obtain ps lw where d: "map_of d ''pipettes'' = Some (JDict ps)"
    "map_of d ''labware'' = Some (JDict lw)"
    using dangling_tip_rackD[OF assms(1)] by blast
  from assms(2) d have pk: "\<forall>item \<in> set ps. pipette_kind (snd item)"
    and lk: "section_kind is_dict (map_of d ''labware'')"
    by (simp_all add: kinds_ok_def section_kind_def list_all_iff)
  show ?thesis
  proof (cases "map_of d ''api_version''")
    case None
    then show ?thesis using initialize_deck_without_api_version by blast
  next
    case (Some api)
    obtain item where "item \<in> set ps" "names_absent_slot lw (snd item)"
      using dangling_tip_rackD[OF assms(1)] d by auto
    then obtain e1 where "pipette_line str_other (JDict d) item = Inl e1"
      using dangling_pipette_line[OF d(2), of item str_other]
      by (cases "pipette_line str_other (JDict d) item") simp_all
    with \<open>item \<in> set ps\<close> obtain e' where e': "map_err (pipette_line str_other (JDict d)) ps = Inl e'"
      using map_err_fails[of item ps "pipette_line str_other (JDict d)" e1] by blast
    then obtain k where "e' = KeyError k"
      using pipette_lines_error[OF lk pk] by blast
    with e' d(1) Some show ?thesis
      by (simp add: initialize_deck_def initialize_deck_code_def bind_err_def getitem_dict items_def)
  qed
qed

subsection \<open>The lines of the labware section\<close>

lemma labware_line_shape:
  "labware_line str_other (slot, entry) = Inr line \<Longrightarrow>
   \<exists>rest. line = ''    '' @ slot @ ''_labware = '' @ rest"
  by (auto simp: labware_line_def bind_err_def split: sum.splits if_splits)

lemma before_assign_first:
  "CHR '' '' \<notin> set t \<Longrightarrow> before_assign (t @ '' = '' @ rest) = Some t"
  by (induction t) auto

lemma assignment_target_indented:
  assumes "CHR '' '' \<notin> set t" and "CHR 0x0A \<notin> set t" and "t \<noteq> []"
  shows "assignment_target (''    '' @ t @ '' = '' @ rest) = Some t"
proof -
  obtain c cs where t: "t = c # cs" using assms(3) by (cases t) auto
  with assms(1,2) have "c \<noteq> CHR '' ''" "c \<noteq> CHR 0x0A" by auto
  then have "dropWhile (\<lambda>c. c = CHR '' '' \<or> c = CHR 0x0A) (''    '' @ t @ '' = '' @ rest)
             = t @ '' = '' @ rest"
    using t by simp
  then show ?thesis
    using before_assign_first[OF assms(1)] by (simp add: assignment_target_def)
qed

lemma assignment_targets_mem:
  "line \<in> set code \<Longrightarrow> assignment_target line = Some t \<Longrightarrow> t \<in> set (assignment_targets code)"
  by (induction code) (auto simp: assignment_targets_def split: option.splits)

lemma join_contains:
  "y \<in> set ys \<Longrightarrow> \<exists>pre post. join sep (x # ys) = pre @ sep @ y @ post"
proof (induction ys arbitrary: x)
  case Nil
  then show ?case by simp
next
  case (Cons a ys)
  show ?case
  proof (cases "y = a")
    case True
    have "join sep (x # a # ys) = x @ sep @ a @ drop (length a) (join sep (a # ys))"
      by (cases ys) simp_all
    with True show ?thesis by blast
  next
    case False
    with Cons.prems have "y \<in> set ys" by simp
    from Cons.IH[OF this, of a] obtain pre post where "join sep (a # ys) = pre @ sep @ y @ post"
      by blast
    then have "join sep (x # a # ys) = (x @ sep @ pre) @ sep @ y @ post" by simp
    then show ?thesis by blast
  qed
qed

lemma digit_start_not_identifier:
  "48 \<le> (of_char c :: nat) \<Longrightarrow> (of_char c :: nat) \<le> 57 \<Longrightarrow> \<not> isidentifier (c # cs)"
  by (simp add: isidentifier_def is_ident_start_def Let_def)

lemma initialize_deck_code_labware_lines:
  assumes "initialize_deck_code str_other config = Inr code"
    and "getitem config (JStr ''labware'') = Inr (JDict lw)"
  shows "\<exists>first before labware_lines.
           code = first # before @ labware_lines
           \<and> map_err (labware_line str_other) lw = Inr labware_lines"
  using assms
  by (auto simp: initialize_deck_code_def bind_err_def Let_def items_def split: sum.splits)

subsection \<open>Identifiers taken from configuration keys\<close>

lemma opentrons_config_code:
  "initialize_deck_code str_sample opentrons_config = Inr opentrons_code"
  by code_simp

lemma opentrons_config_targets:
  "map_sum id (assignment_targets \<circ> split_lines) (initialize_deck str_sample opentrons_config)
   = Inr [''metadata'', ''left_pipette'', ''right_pipette'', ''thermocycler'', ''1_labware'',
          ''2_labware'', ''3_labware'', ''5_labware'', ''7_labware'']"
  by code_simp

text \<open>
  C8. The assignment targets are made from the keys of the configuration: whenever the
  generator returns, every key \<open>slot\<close> of the labware dict has its line in the generated
  source, an assignment whose target is \<open>slot_labware\<close> (the key has no blank in it);
  when the key starts with a digit the target is not a Python identifier. The notebook's
  configuration has the slot key \<open>1\<close>, and its generated source assigns to
  \<open>1_labware\<close>.
\<close>

theorem labware_keys_become_targets:
  assumes "initialize_deck_code str_other config = Inr code"
    and "getitem config (JStr ''labware'') = Inr (JDict lw)"
    and "(slot, entry) \<in> set lw"
    and "CHR '' '' \<notin> set slot"
    and "CHR 0x0A \<notin> set slot"
    and "slot = d # ds"
    and "48 \<le> (of_char d :: nat)"
    and "(of_char d :: nat) \<le> 57"
  shows "initialize_deck str_other config = Inr (join nl code)
         \<and> (\<exists>rest. ''    '' @ slot @ ''_labware = '' @ rest \<in> set code)
         \<and> slot @ ''_labware'' \<in> set (assignment_targets code)
         \<and> (\<exists>pre post. join nl code = pre @ nl @ ''    '' @ slot @ ''_labware = '' @ post)
         \<and> \<not> isidentifier (slot @ ''_labware'')"
proof -
  obtain first before labware_lines where
    code: "code = first # before @ labware_lines"
    and lines: "map_err (labware_line str_other) lw = Inr labware_lines"
    using initialize_deck_code_labware_lines[OF assms(1,2)] by blast
  obtain line where line: "line \<in> set labware_lines"
    "labware_line str_other (slot, entry) = Inr line"
    using map_err_Inr[OF lines assms(3)] by blast
  obtain rest where rest: "line = ''    '' @ slot @ ''_labware = '' @ rest"
    using labware_line_shape[OF line(2)] by blast
  have mem: "line \<in> set code" using code line(1) by simp
  have "assignment_target (''    '' @ (slot @ ''_labware'') @ '' = '' @ rest) = Some (slot @ ''_labware'')"
    using assms(4,5) by (intro assignment_target_indented) simp_all
  then have target: "assignment_target line = Some (slot @ ''_labware'')"
    using rest by simp
  have "line \<in> set (before @ labware_lines)" using line(1) by simp
  then obtain pre post where "join nl code = pre @ nl @ line @ post"
    unfolding code using join_contains[of line "before @ labware_lines" nl first] by blast
  then have sub: "join nl code = pre @ nl @ ''    '' @ slot @ ''_labware = '' @ (rest @ post)"
    using rest by simp
  have a: "initialize_deck str_other config = Inr (join nl code)"
    using assms(1) by (simp add: initialize_deck_def)
  have b: "\<exists>rest. ''    '' @ slot @ ''_labware = '' @ rest \<in> set code"
    using mem rest by blast
  have c: "slot @ ''_labware'' \<in> set (assignment_targets code)"
    using assignment_targets_mem[OF mem target] .
  have d: "\<exists>pre post. join nl code = pre @ nl @ ''    '' @ slot @ ''_labware = '' @ post"
    using sub by blast
  have e: "\<not> isidentifier (slot @ ''_labware'')"
    using digit_start_not_identifier[OF assms(7,8)] assms(6) by simp
  from a b c d e show ?thesis by blast
qed

theorem labware_keys_become_targets_witness:
  "initialize_deck_code str_sample opentrons_config = Inr opentrons_code
   \<and> getitem opentrons_config (JStr ''labware'')
       = Inr (JDict
           [(''1'', JDict [(''type'', JStr ''opentrons_96_tiprack_300ul'')]),
            (''2'', JDict [(''type'', JStr ''opentrons_96_tiprack_20ul'')]),
            (''3'', JDict [(''type'', JStr ''corning_96_wellplate_360ul_flat'')]),
            (''5'', JDict [(''type'', JStr ''nest_12_reservoir_15ml'')]),
            (''7'', JDict [(''type'', JStr ''nest_96_wellplate_100ul_pcr_full_skirt''),
                           (''parent_module'', JStr ''thermocycler'')])])
   \<and> initialize_deck str_sample opentrons_config = Inr (join nl opentrons_code)
   \<and> ''1_labware'' \<in> set (assignment_targets opentrons_code)
   \<and> \<not> isidentifier ''1_labware''
   \<and> map_sum id (assignment_targets \<circ> split_lines) (initialize_deck str_sample opentrons_config)
       = Inr [''metadata'', ''left_pipette'', ''right_pipette'', ''thermocycler'', ''1_labware'',
              ''2_labware'', ''3_labware'', ''5_labware'', ''7_labware'']"
proof -
  have lab: "getitem opentrons_config (JStr ''labware'')
       = Inr (JDict
           [(''1'', JDict [(''type'', JStr ''opentrons_96_tiprack_300ul'')]),
            (''2'', JDict [(''type'', JStr ''opentrons_96_tiprack_20ul'')]),
            (''3'', JDict [(''type'', JStr ''corning_96_wellplate_360ul_flat'')]),
            (''5'', JDict [(''type'', JStr ''nest_12_reservoir_15ml'')]),
            (''7'', JDict [(''type'', JStr ''nest_96_wellplate_100ul_pcr_full_skirt''),
                           (''parent_module'', JStr ''thermocycler'')])])"
    by (simp add: opentrons_config_def getitem_dict)
  have "initialize_deck str_sample opentrons_config = Inr (join nl opentrons_code)
        \<and> (\<exists>rest. ''    '' @ ''1'' @ ''_labware = '' @ rest \<in> set opentrons_code)
        \<and> ''1'' @ ''_labware'' \<in> set (assignment_targets opentrons_code)
        \<and> (\<exists>pre post. join nl opentrons_code = pre @ nl @ ''    '' @ ''1'' @ ''_labware = '' @ post)
        \<and> \<not> isidentifier (''1'' @ ''_labware'')"
    by (rule labware_keys_become_targets
               [OF opentrons_config_code lab, of "''1''" _ "CHR ''1''" "[]"]) simp_all
  then show ?thesis
    using opentrons_config_code lab opentrons_config_targets by simp
qed

subsection \<open>Missing sections\<close>

text \<open>
  C10 (amended). A configuration that is not a JSON object raises \<open>TypeError\<close>. For a
  JSON object: a missing \<open>modules\<close> section is treated as an empty one, and the notebook's
  configuration without it is generated successfully; a configuration without
  \<open>api_version\<close> or without \<open>pipettes\<close> raises \<open>KeyError\<close>; a configuration without
  \<open>labware\<close>, and one in which a pipette's tip rack names a slot that is not in the
  \<open>labware\<close> dict, always raises. With a dangling tip rack the exception is a \<open>KeyError\<close>
  when the configuration has the JSON kinds of \<open>opentrons_config.json\<close>; without
  \<open>labware\<close> it is a \<open>KeyError\<close> when the configuration has these kinds and no module
  has an empty \<open>location\<close> list. On other input an earlier statement can raise
  \<open>IndexError\<close>, \<open>AttributeError\<close> or \<open>TypeError\<close> first.
\<close>

theorem initialize_deck_missing_sections:
  "(\<not> is_dict config \<longrightarrow> initialize_deck str_other config = Inl TypeError)
   \<and> (map_of d ''modules'' = None \<longrightarrow>
        initialize_deck str_other (JDict d)
          = initialize_deck str_other (JDict (d @ [(''modules'', JDict [])])))
   \<and> \<not> isl (initialize_deck str_sample config_without_modules)
   \<and> (map_of d ''api_version'' = None \<longrightarrow>
        initialize_deck str_other (JDict d) = Inl (KeyError (JStr ''api_version'')))
   \<and> (map_of d ''pipettes'' = None \<longrightarrow>
        (\<exists>k. initialize_deck str_other (JDict d) = Inl (KeyError k)))
   \<and> (map_of d ''labware'' = None \<longrightarrow> isl (initialize_deck str_other (JDict d)))
   \<and> (map_of d ''labware'' = None \<and> kinds_ok (JDict d) \<and> no_empty_location (JDict d) \<longrightarrow>
        (\<exists>k. initialize_deck str_other (JDict d) = Inl (KeyError k)))
   \<and> (dangling_tip_rack (JDict d) \<longrightarrow> isl (initialize_deck str_other (JDict d)))
   \<and> (dangling_tip_rack (JDict d) \<and> kinds_ok (JDict d) \<longrightarrow>
        (\<exists>k. initialize_deck str_other (JDict d) = Inl (KeyError k)))"
proof -
  have a: "\<not> isl (initialize_deck str_sample config_without_modules)"
    by code_simp
  have b: "\<exists>k. initialize_deck str_other (JDict d) = Inl (KeyError k)"
    if h1: "map_of d ''labware'' = None" and h2: "kinds_ok (JDict d)"
      and h3: "no_empty_location (JDict d)"
  proof -
    obtain e where e: "initialize_deck str_other (JDict d) = Inl e"
      using initialize_deck_without_labware[OF h1, of str_other]
      by (cases "initialize_deck str_other (JDict d)") simp_all
    with initialize_deck_error[OF h2 e] h3 show ?thesis by blast
  qed
  show ?thesis
    using a b initialize_deck_not_dict[of config str_other]
      initialize_deck_modules_default[of d str_other]
      initialize_deck_without_api_version[of d str_other]
      initialize_deck_without_pipettes[of d str_other]
      initialize_deck_without_labware[of d str_other]
      initialize_deck_dangling[of d str_other]
      initialize_deck_dangling_key_error[of d str_other]
    by blast
qed

theorem initialize_deck_missing_sections_witness:
  "initialize_deck str_sample JNull = Inl TypeError
   \<and> initialize_deck str_sample (JDict []) = Inl (KeyError (JStr ''api_version''))
   \<and> map_of (dict_items config_without_labware) ''labware'' = None
   \<and> kinds_ok config_without_labware
   \<and> no_empty_location config_without_labware
   \<and> initialize_deck str_sample config_without_labware = Inl (KeyError (JStr ''labware''))
   \<and> map_of (dict_items config_dangling_rack) ''modules'' = None
   \<and> dangling_tip_rack config_dangling_rack
   \<and> kinds_ok config_dangling_rack
   \<and> initialize_deck str_sample config_dangling_rack = Inl (KeyError (JStr ''9''))
   \<and> initialize_deck str_sample (JDict (dict_items config_dangling_rack @ [(''modules'', JDict [])]))
       = Inl (KeyError (JStr ''9''))"
proof -
  have 1: "initialize_deck str_sample JNull = Inl TypeError" by code_simp
  have 2: "initialize_deck str_sample (JDict []) = Inl (KeyError (JStr ''api_version''))"
    by code_simp
  have 3: "map_of (dict_items config_without_labware) ''labware'' = None" by code_simp
  have 4: "kinds_ok config_without_labware" by code_simp
  have 5: "no_empty_location config_without_labware" by code_simp
  have 6: "initialize_deck str_sample config_without_labware = Inl (KeyError (JStr ''labware''))"
    by code_simp
  have 7: "map_of (dict_items config_dangling_rack) ''modules'' = None" by code_simp
  have 8: "dangling_tip_rack config_dangling_rack" by code_simp
  have 9: "kinds_ok config_dangling_rack" by code_simp
  have 10: "initialize_deck str_sample config_dangling_rack = Inl (KeyError (JStr ''9''))"
    by code_simp
  have 11: "JDict (dict_items config_dangling_rack) = config_dangling_rack"
    by (simp add: dict_items_def config_dangling_rack_def)
  have 12: "JDict (dict_items config_without_labware) = config_without_labware"
    by (simp add: dict_items_def config_without_labware_def without_key_def opentrons_config_def)
  from initialize_deck_missing_sections[of JNull str_sample "dict_items config_without_labware"]
    initialize_deck_missing_sections[of JNull str_sample "dict_items config_dangling_rack"]
    initialize_deck_missing_sections[of JNull str_sample "[]"]
    1 2 3 4 5 6 7 8 9 10 11 12
  show ?thesis by simp
qed

text \<open>Two configurations without \<open>labware\<close> that do not raise \<open>KeyError\<close>: with a module
  whose location list is empty, \<open>module_info['location'][0]\<close> raises \<open>IndexError\<close>; with
  \<open>modules\<close> set to \<open>null\<close>, \<open>config.get('modules', {}).items()\<close> raises
  \<open>AttributeError\<close>. Both statements run before the labware loop.\<close>

theorem initialize_deck_other_errors_counterexample:
  "getitem config_empty_location (JStr ''labware'') = Inl (KeyError (JStr ''labware''))
   \<and> initialize_deck str_sample config_empty_location = Inl IndexError
   \<and> getitem config_null_modules (JStr ''labware'') = Inl (KeyError (JStr ''labware''))
   \<and> initialize_deck str_sample config_null_modules = Inl (AttributeError ''items'')"
proof -
  have "getitem config_empty_location (JStr ''labware'') = Inl (KeyError (JStr ''labware''))"
    by (simp add: config_empty_location_def getitem_dict)
  moreover have "initialize_deck str_sample config_empty_location = Inl IndexError"
    by code_simp
  moreover have "getitem config_null_modules (JStr ''labware'') = Inl (KeyError (JStr ''labware''))"
    by (simp add: config_null_modules_def getitem_dict)
  moreover have "initialize_deck str_sample config_null_modules = Inl (AttributeError ''items'')"
    by code_simp
  ultimately show ?thesis by blast
qed

end
